theory Spec2Isabelle
  imports Complex_Main "HOL-Library.Word" "HOL-Library.Sublist"
begin

unbundle bit_operations_syntax

section \<open>Data model of server.js\<close>

text \<open>
  Buffers are byte lists. A JavaScript string is a list of UTF-16 code units, so that
  \<open>length\<close> is the string's \<open>.length\<close> and \<open>take n\<close> is \<open>.substring(0, n)\<close>.
  Source text, file names, file contents, api keys and ids are opaque to the engine and
  are kept as plain strings.
\<close>

type_synonym byte = "8 word"
type_synonym jsstring = "16 word list"

definition js :: "string \<Rightarrow> jsstring" where
  "js s = map (\<lambda>c. of_nat (of_char c)) s"

text \<open>
  A JavaScript number is an IEEE 754 double: a finite value, an infinity or \<open>NaN\<close>. A
  finite double is kept as the rational it denotes, and every arithmetic result is
  rounded to the nearest double, ties to even (\<open>round64\<close>): 53 significant bits, exponents
  from -1022 to 1023, gradual underflow, overflow to an infinity. The two zeros are not
  distinguished: every zero that reaches a division below comes from a subtraction or
  from a JSON integer (the literal \<open>-0\<close> apart) and is therefore \<open>+0\<close>, and a zero
  result is only ever compared.
\<close>

datatype jsnum = Fin rat | PInf | NInf | NaN

text \<open>The number of binary digits of a positive integer.\<close>

function bitlen :: "int \<Rightarrow> nat" where
  "bitlen n = (if n \<le> 0 then 0 else Suc (bitlen (n div 2)))"
  by pat_completeness auto
termination
  by (relation "measure nat") auto

definition pow2 :: "int \<Rightarrow> rat" where
  "pow2 k = (if 0 \<le> k then 2 ^ nat k else 1 / 2 ^ nat (- k))"

text \<open>The exponent of a positive rational: the greatest \<open>k\<close> with \<open>2 ^ k \<le> a\<close>.\<close>

definition ilog2 :: "rat \<Rightarrow> int" where
  "ilog2 a =
     (let k = int (bitlen (fst (quotient_of a))) - int (bitlen (snd (quotient_of a)))
      in if pow2 k \<le> a then k else k - 1)"

definition round_half_even :: "rat \<Rightarrow> int" where
  "round_half_even m =
     (let n = \<lfloor>m\<rfloor>; f = m - of_int n
      in if f < 1 / 2 then n else if 1 / 2 < f then n + 1 else if even n then n else n + 1)"

text \<open>Rounding to the nearest double. An integer of magnitude at most \<open>2 ^ 53\<close> is a
  double already; any other value is scaled to its unit in the last place and rounded
  there.\<close>

definition round64 :: "rat \<Rightarrow> jsnum" where
  "round64 q =
     (if q = of_int \<lfloor>q\<rfloor> \<and> \<bar>q\<bar> \<le> 9007199254740992 then Fin q
      else let a = \<bar>q\<bar>;
               e = max (ilog2 a) (- 1022);
               ulp = pow2 (e - 52);
               r = of_int (round_half_even (a / ulp)) * ulp
           in if pow2 1024 \<le> r then (if 0 < q then PInf else NInf)
              else Fin (if 0 < q then r else - r))"

fun js_sub :: "jsnum \<Rightarrow> jsnum \<Rightarrow> jsnum" where
  "js_sub NaN _ = NaN"
| "js_sub _ NaN = NaN"
| "js_sub (Fin a) (Fin b) = round64 (a - b)"
| "js_sub (Fin a) PInf = NInf"
| "js_sub (Fin a) NInf = PInf"
| "js_sub PInf PInf = NaN"
| "js_sub PInf _ = PInf"
| "js_sub NInf NInf = NaN"
| "js_sub NInf _ = NInf"

fun js_mul :: "jsnum \<Rightarrow> jsnum \<Rightarrow> jsnum" where
  "js_mul NaN _ = NaN"
| "js_mul _ NaN = NaN"
| "js_mul (Fin a) (Fin b) = round64 (a * b)"
| "js_mul (Fin a) PInf = (if a = 0 then NaN else if 0 < a then PInf else NInf)"
| "js_mul (Fin a) NInf = (if a = 0 then NaN else if 0 < a then NInf else PInf)"
| "js_mul PInf (Fin b) = (if b = 0 then NaN else if 0 < b then PInf else NInf)"
| "js_mul NInf (Fin b) = (if b = 0 then NaN else if 0 < b then NInf else PInf)"
| "js_mul PInf PInf = PInf"
| "js_mul PInf NInf = NInf"
| "js_mul NInf PInf = NInf"
| "js_mul NInf NInf = PInf"

fun js_div :: "jsnum \<Rightarrow> jsnum \<Rightarrow> jsnum" where
  "js_div NaN _ = NaN"
| "js_div _ NaN = NaN"
| "js_div (Fin a) (Fin b) =
     (if b = 0 then (if a = 0 then NaN else if 0 < a then PInf else NInf)
      else round64 (a / b))"
| "js_div (Fin a) PInf = Fin 0"
| "js_div (Fin a) NInf = Fin 0"
| "js_div PInf (Fin b) = (if 0 \<le> b then PInf else NInf)"
| "js_div NInf (Fin b) = (if 0 \<le> b then NInf else PInf)"
| "js_div PInf _ = NaN"
| "js_div NInf _ = NaN"

fun js_gt :: "jsnum \<Rightarrow> jsnum \<Rightarrow> bool" where
  "js_gt NaN _ = False"
| "js_gt _ NaN = False"
| "js_gt (Fin a) (Fin b) = (b < a)"
| "js_gt (Fin a) PInf = False"
| "js_gt (Fin a) NInf = True"
| "js_gt PInf PInf = False"
| "js_gt PInf _ = True"
| "js_gt NInf _ = False"

text \<open>A JSON leaf that holds an integer, which \<open>JSON.parse\<close> reads as the nearest double,
  or is missing (\<open>undefined\<close>, \<open>NaN\<close> in arithmetic).\<close>

definition num_of :: "int option \<Rightarrow> jsnum" where
  "num_of v = (case v of None \<Rightarrow> NaN | Some i \<Rightarrow> round64 (of_int i))"

subsection \<open>The jobs table\<close>

datatype status = Not_started | Running | Done

record input_file =
  name :: string
  content :: string

text \<open>One row of the table \<open>jobs\<close>; a column that may be NULL is an option.\<close>

record job =
  job_id :: string
  api_key :: string
  status :: status
  java_code :: string
  args :: "string list"
  input_files :: "input_file list"
  stdout :: "jsstring option"
  stderr :: "jsstring option"
  crashed :: bool
  timed_out :: bool
  memory_usage_mb :: "jsnum option"
  cpu_percent_max :: "jsnum option"
  execution_time_ms :: "int option"
  created_at :: nat
  started_at :: "nat option"
  completed_at :: "nat option"
  container_id :: "string option"

type_synonym jobs = "string \<rightharpoonup> job"

text \<open>\<open>INSERT INTO jobs (id, api_key, java_code, args, input_files, status)\<close>; the other
  columns take their defaults.\<close>

definition insert_job ::
  "string \<Rightarrow> string \<Rightarrow> string \<Rightarrow> string list \<Rightarrow> input_file list \<Rightarrow> nat \<Rightarrow> jobs \<Rightarrow> jobs" where
  "insert_job jid key code as files now db =
     db(jid \<mapsto> \<lparr>job_id = jid, api_key = key, status = Not_started, java_code = code,
                 args = as, input_files = files, stdout = None, stderr = None,
                 crashed = False, timed_out = False, memory_usage_mb = None,
                 cpu_percent_max = None, execution_time_ms = None, created_at = now,
                 started_at = None, completed_at = None, container_id = None\<rparr>)"

text \<open>\<open>UPDATE jobs SET ... WHERE id = ?\<close>: the row with that id, if there is one, is
  rewritten; no other condition is tested.\<close>

definition update_job :: "string \<Rightarrow> (job \<Rightarrow> job) \<Rightarrow> jobs \<Rightarrow> jobs" where
  "update_job jid f db = (case db jid of None \<Rightarrow> db | Some j \<Rightarrow> db(jid \<mapsto> f j))"

definition mark_running :: "string \<Rightarrow> nat \<Rightarrow> jobs \<Rightarrow> jobs" where
  "mark_running jid now = update_job jid (\<lambda>j. j\<lparr>status := Running, started_at := Some now\<rparr>)"

definition set_container_id :: "string \<Rightarrow> string \<Rightarrow> jobs \<Rightarrow> jobs" where
  "set_container_id jid cid = update_job jid (\<lambda>j. j\<lparr>container_id := Some cid\<rparr>)"

text \<open>
  A string bound to a TEXT column is written as UTF-8 and read back from it: a
  surrogate that is not part of a pair comes back as U+FFFD, everything else as it was.
\<close>

definition text_unit :: "16 word \<Rightarrow> 16 word" where
  "text_unit u = (if 0xD800 \<le> u \<and> u < 0xE000 then 0xFFFD else u)"

fun text_column :: "jsstring \<Rightarrow> jsstring" where
  "text_column [] = []"
| "text_column [u] = [text_unit u]"
| "text_column (u # v # us) =
     (if 0xD800 \<le> u \<and> u < 0xDC00 \<and> 0xDC00 \<le> v \<and> v < 0xE000
      then u # v # text_column us
      else text_unit u # text_column (v # us))"

text \<open>The values bound to the UPDATE of the success path.\<close>

record results =
  r_stdout :: jsstring
  r_stderr :: jsstring
  r_crashed :: bool
  r_timedOut :: bool
  r_maxMemoryMb :: jsnum
  r_maxCpuPercent :: jsnum
  r_executionTime :: int

definition finalize_success :: "string \<Rightarrow> results \<Rightarrow> nat \<Rightarrow> jobs \<Rightarrow> jobs" where
  "finalize_success jid r now =
     update_job jid (\<lambda>j. j\<lparr>status := Done,
                            stdout := Some (text_column (r_stdout r)),
                            stderr := Some (text_column (r_stderr r)),
                            crashed := r_crashed r,
                            timed_out := r_timedOut r,
                            memory_usage_mb := Some (r_maxMemoryMb r),
                            cpu_percent_max := Some (r_maxCpuPercent r),
                            execution_time_ms := Some (r_executionTime r),
                            completed_at := Some now\<rparr>)"

text \<open>The UPDATE of the catch block.\<close>

definition finalize_failure :: "string \<Rightarrow> jsstring \<Rightarrow> nat \<Rightarrow> jobs \<Rightarrow> jobs" where
  "finalize_failure jid msg now =
     update_job jid (\<lambda>j. j\<lparr>status := Done, crashed := True,
                            stderr := Some (text_column msg),
                            completed_at := Some now\<rparr>)"

section \<open>Stream demultiplexer\<close>

text \<open>
  \<open>Buffer.prototype.toString()\<close> decodes UTF-8; an ill-formed sequence becomes U+FFFD,
  one per maximal ill-formed subpart, and a code point above U+FFFF becomes a surrogate
  pair. \<open>utf8_first\<close> reads a byte when no sequence is open, \<open>utf8_run cp need lo hi\<close>
  carries the code point so far, the number of continuation bytes still needed and the
  range allowed for the next byte.
\<close>

datatype utf8_step = Emit nat | Open nat nat nat nat

definition utf8_first :: "nat \<Rightarrow> utf8_step" where
  "utf8_first b =
     (if b \<le> 0x7F then Emit b
      else if 0xC2 \<le> b \<and> b \<le> 0xDF then Open (b mod 32) 1 0x80 0xBF
      else if 0xE0 \<le> b \<and> b \<le> 0xEF then
        Open (b mod 16) 2 (if b = 0xE0 then 0xA0 else 0x80) (if b = 0xED then 0x9F else 0xBF)
      else if 0xF0 \<le> b \<and> b \<le> 0xF4 then
        Open (b mod 8) 3 (if b = 0xF0 then 0x90 else 0x80) (if b = 0xF4 then 0x8F else 0xBF)
      else Emit 0xFFFD)"

fun utf8_run :: "nat \<Rightarrow> nat \<Rightarrow> nat \<Rightarrow> nat \<Rightarrow> nat list \<Rightarrow> nat list" where
  "utf8_run cp need lo hi [] = (if need = 0 then [] else [0xFFFD])"
| "utf8_run cp need lo hi (b # bs) =
     (if need = 0 \<or> b < lo \<or> hi < b then
        (if need = 0 then [] else [0xFFFD]) @
        (case utf8_first b of
           Emit c \<Rightarrow> c # utf8_run 0 0 0x80 0xBF bs
         | Open c n l h \<Rightarrow> utf8_run c n l h bs)
      else if need = 1 then (cp * 64 + b mod 64) # utf8_run 0 0 0x80 0xBF bs
      else utf8_run (cp * 64 + b mod 64) (need - 1) 0x80 0xBF bs)"

definition utf16_units :: "nat \<Rightarrow> jsstring" where
  "utf16_units cp =
     (if cp < 0x10000 then [of_nat cp]
      else [of_nat (0xD800 + (cp - 0x10000) div 1024),
            of_nat (0xDC00 + (cp - 0x10000) mod 1024)])"

definition toString :: "byte list \<Rightarrow> jsstring" where
  "toString buf = concat (map utf16_units (utf8_run 0 0 0x80 0xBF (map unat buf)))"

text \<open>
  The number of bytes a string occupies as UTF-8 text, which is how the TEXT columns
  hold it: a surrogate pair is four bytes, a lone surrogate is written as U+FFFD.
\<close>

definition unit_bytes :: "16 word \<Rightarrow> nat" where
  "unit_bytes u = (if u < 0x80 then 1 else if u < 0x800 then 2 else 3)"

fun utf8_length :: "jsstring \<Rightarrow> nat" where
  "utf8_length [] = 0"
| "utf8_length [u] = unit_bytes u"
| "utf8_length (u # v # us) =
     (if 0xD800 \<le> u \<and> u < 0xDC00 \<and> 0xDC00 \<le> v \<and> v < 0xE000
      then 4 + utf8_length us
      else unit_bytes u + utf8_length (v # us))"

text \<open>The handler \<open>stream.on('data', (chunk) => ...)\<close>; the pair is \<open>(stdout, stderr)\<close>.
  \<open>header[0]\<close> of an empty chunk is \<open>undefined\<close> and matches neither tag.\<close>

definition stream_on_data :: "byte list \<Rightarrow> jsstring \<times> jsstring \<Rightarrow> jsstring \<times> jsstring" where
  "stream_on_data chunk bufs =
     (let header = take 8 chunk;
          payload = drop 8 chunk
      in case header of
           [] \<Rightarrow> bufs
         | type # _ \<Rightarrow>
             if type = 1 then (fst bufs @ toString payload, snd bufs)
             else if type = 2 then (fst bufs, snd bufs @ toString payload)
             else bufs)"

definition demux :: "byte list list \<Rightarrow> jsstring \<times> jsstring" where
  "demux chunks = foldl (\<lambda>bufs chunk. stream_on_data chunk bufs) ([], []) chunks"

text \<open>The frame format of the attach stream as the specification gives it (section
  4.3): an 8-byte header (tag, three reserved bytes, big-endian 32-bit payload length)
  followed by the payload. The source never builds a frame; this is the producer's side.\<close>

definition be32 :: "nat \<Rightarrow> byte list" where
  "be32 n = [of_nat (n div 16777216), of_nat (n div 65536), of_nat (n div 256), of_nat n]"

definition frame :: "byte \<Rightarrow> byte list \<Rightarrow> byte list" where
  "frame tag payload = [tag, 0, 0, 0] @ be32 (length payload) @ payload"

section \<open>Resource sampler\<close>

text \<open>A statistics frame that parsed and has its \<open>cpu_usage\<close> objects. \<open>memory_stats\<close>
  is \<open>None\<close> when the object itself is missing, which makes \<open>stats.memory_stats.usage\<close>
  throw; a missing leaf is \<open>undefined\<close>.\<close>

record stats =
  cpu_total_usage :: "int option"
  precpu_total_usage :: "int option"
  system_cpu_usage :: "int option"
  precpu_system_cpu_usage :: "int option"
  online_cpus :: "int option"
  memory_stats :: "int option option"

record peaks =
  maxCpuPercent :: jsnum
  maxMemoryMb :: jsnum

text \<open>The three constants the handler computes for the CPU sample.\<close>

definition cpuDelta :: "stats \<Rightarrow> jsnum" where
  "cpuDelta st = js_sub (num_of (cpu_total_usage st)) (num_of (precpu_total_usage st))"

definition systemDelta :: "stats \<Rightarrow> jsnum" where
  "systemDelta st =
     js_sub (num_of (system_cpu_usage st)) (num_of (precpu_system_cpu_usage st))"

definition cpuPercent :: "stats \<Rightarrow> jsnum" where
  "cpuPercent st =
     js_mul (js_mul (js_div (cpuDelta st) (systemDelta st)) (num_of (online_cpus st)))
            (Fin 100)"

text \<open>The handler \<open>statsStream.on('data', ...)\<close>. The argument \<open>None\<close> is a frame on which
  \<open>JSON.parse\<close> or the first property access throws; the catch block ignores it.\<close>

definition stats_on_data :: "stats option \<Rightarrow> peaks \<Rightarrow> peaks" where
  "stats_on_data d p =
     (case d of
        None \<Rightarrow> p
      | Some st \<Rightarrow>
          let p1 = (if js_gt (cpuPercent st) (maxCpuPercent p)
                    then p\<lparr>maxCpuPercent := cpuPercent st\<rparr> else p)
          in (case memory_stats st of
                None \<Rightarrow> p1
              | Some usage \<Rightarrow>
                  let memoryMb = js_div (num_of usage) (Fin (1024 * 1024))
                  in if js_gt memoryMb (maxMemoryMb p1)
                     then p1\<lparr>maxMemoryMb := memoryMb\<rparr> else p1))"

definition sampler :: "stats option list \<Rightarrow> peaks" where
  "sampler ds = foldl (\<lambda>p d. stats_on_data d p) \<lparr>maxCpuPercent = Fin 0, maxMemoryMb = Fin 0\<rparr> ds"

section \<open>Submission and staging\<close>

text \<open>Archive entries in the order they are packed: the name and the content of each.\<close>

definition createTarArchive :: "string \<Rightarrow> input_file list \<Rightarrow> (string \<times> string) list" where
  "createTarArchive javaCode inputFiles =
     (''Main.java'', javaCode) #
     map (\<lambda>file. (name file, content file))
         (filter (\<lambda>file. name file \<noteq> [] \<and> content file \<noteq> []) inputFiles)"

record request =
  req_javaCode :: "string option"
  req_args :: "string list"
  req_inputFiles :: "input_file list"

datatype response = Status400 | Status500 | Submitted string

text \<open>The handler of \<open>POST /api/submit\<close> up to the INSERT. \<open>jobId\<close> is the fresh uuid,
  \<open>insert_err\<close> says whether the INSERT reports an error; an id already present violates
  the primary key.\<close>

definition submit :: "request \<Rightarrow> string \<Rightarrow> string \<Rightarrow> bool \<Rightarrow> nat \<Rightarrow> jobs \<Rightarrow> response \<times> jobs" where
  "submit req apiKey jobId insert_err now db =
     (case req_javaCode req of
        None \<Rightarrow> (Status400, db)
      | Some javaCode \<Rightarrow>
          if javaCode = [] then (Status400, db)
          else if insert_err \<or> db jobId \<noteq> None then (Status500, db)
          else (Submitted jobId,
                insert_job jobId apiKey javaCode (req_args req) (req_inputFiles req) now db))"

section \<open>Execution supervisor\<close>

definition CONTAINER_TIMEOUT_MS :: nat where
  "CONTAINER_TIMEOUT_MS = 10000"

text \<open>The calls \<open>executeJavaInDocker\<close> makes to the database, the container runtime and
  the timer, in the order of the source text.\<close>

datatype call =
    DbGet | DbMarkRunning | CreateTar | CreateContainer | DbSetContainer | PutArchive
  | Attach | Start | Stats | SetTimeout | Wait | Kill | ClearTimeout | StatsDestroy
  | DbFinalize | Remove | DbFinalizeError | RemoveForce

text \<open>
  What the outside world does during one run: which awaited calls reject and with what
  \<open>error.message\<close>, how many milliseconds each awaited call takes, the id of the created
  container, the data events of the attach stream and of the statistics stream that
  arrive before the results are read, and the exit code the wait resolves with.
\<close>

record environment =
  fails :: "call \<Rightarrow> jsstring option"
  elapsed :: "call \<Rightarrow> nat"
  created_id :: string
  chunks :: "byte list list"
  frames :: "stats option list"
  StatusCode :: int

text \<open>The timer is armed in the instant the wait begins, so its callback has run before
  the wait is over exactly when the wait lasts at least \<open>CONTAINER_TIMEOUT_MS\<close>.\<close>

definition deadline_fired :: "environment \<Rightarrow> bool" where
  "deadline_fired env = (CONTAINER_TIMEOUT_MS \<le> elapsed env Wait)"

text \<open>
  The locals of one run (\<open>container\<close>, \<open>timeout\<close>, \<open>timedOut\<close>), the database, and
  three observations kept for the proofs: the wall clock, each call with the time it was
  issued at, the database after each successful write, and the archive that was uploaded.
\<close>

record sup =
  clock :: nat
  trace :: "(call \<times> nat) list"
  store :: jobs
  history :: "jobs list"
  container :: "string option"
  timeout :: bool
  timedOut :: bool
  uploaded :: "(string \<times> string) list option"

datatype outcome = Succeeded | Failed jsstring | Unsettled jsstring

definition andThen ::
  "(jsstring \<times> sup) + 'a \<Rightarrow> ('a \<Rightarrow> (jsstring \<times> sup) + 'b) \<Rightarrow> (jsstring \<times> sup) + 'b" where
  "andThen r f = (case r of Inl e \<Rightarrow> Inl e | Inr x \<Rightarrow> f x)"

text \<open>A synchronous call that cannot fail and takes no time.\<close>

definition issue :: "call \<Rightarrow> sup \<Rightarrow> sup" where
  "issue c s = s\<lparr>trace := trace s @ [(c, clock s)]\<rparr>"

text \<open>An awaited call: it takes its time, then resolves or rejects.\<close>

definition perform :: "environment \<Rightarrow> call \<Rightarrow> sup \<Rightarrow> (jsstring \<times> sup) + sup" where
  "perform env c s =
     (let s' = (issue c s)\<lparr>clock := clock s + elapsed env c\<rparr>
      in case fails env c of Some m \<Rightarrow> Inl (m, s') | None \<Rightarrow> Inr s')"

text \<open>An awaited call inside its own try/catch that only logs.\<close>

definition attempt :: "environment \<Rightarrow> call \<Rightarrow> sup \<Rightarrow> sup" where
  "attempt env c s = (case perform env c s of Inl (m, s') \<Rightarrow> s' | Inr s' \<Rightarrow> s')"

text \<open>An awaited \<open>db.run\<close>: when it resolves, the statement has been applied.\<close>

definition db_run ::
  "environment \<Rightarrow> call \<Rightarrow> (nat \<Rightarrow> jobs \<Rightarrow> jobs) \<Rightarrow> sup \<Rightarrow> (jsstring \<times> sup) + sup" where
  "db_run env c stmt s =
     andThen (perform env c s)
       (\<lambda>s'. let db' = stmt (clock s') (store s')
             in Inr (s'\<lparr>store := db', history := history s' @ [db']\<rparr>))"

text \<open>From the SELECT to \<open>putArchive\<close>.\<close>

definition stage :: "environment \<Rightarrow> string \<Rightarrow> sup \<Rightarrow> (jsstring \<times> sup) + sup" where
  "stage env jobId s0 =
     andThen (perform env DbGet s0) (\<lambda>s1.
       case store s1 jobId of
         None \<Rightarrow> Inl (js ''Job not found'', s1)
       | Some job \<Rightarrow>
           andThen (db_run env DbMarkRunning (mark_running jobId) s1) (\<lambda>s2.
           andThen (perform env CreateTar s2) (\<lambda>s3.
           andThen (perform env CreateContainer s3) (\<lambda>s4.
           andThen (db_run env DbSetContainer (\<lambda>t. set_container_id jobId (created_id env))
                      (s4\<lparr>container := Some (created_id env)\<rparr>)) (\<lambda>s5.
           andThen (perform env PutArchive s5) (\<lambda>s6.
             Inr (s6\<lparr>uploaded :=
                        Some (createTarArchive (java_code job) (input_files job))\<rparr>)))))))"

text \<open>From \<open>attach\<close> to the end of \<open>wait\<close>. The timer callback, when it runs, runs while
  the wait is pending: it sets \<open>timedOut\<close> and calls \<open>kill\<close>, whose failure is ignored.\<close>

definition run_sandbox :: "environment \<Rightarrow> sup \<Rightarrow> (jsstring \<times> sup) + sup" where
  "run_sandbox env s =
     andThen (perform env Attach s) (\<lambda>s1.
     andThen (perform env Start s1) (\<lambda>s2.
     andThen (perform env Stats s2) (\<lambda>s3.
       let s4 = (issue SetTimeout s3)\<lparr>timeout := True\<rparr>;
           s5 = (if deadline_fired env
                 then s4\<lparr>timedOut := True,
                         trace := trace s4 @ [(Wait, clock s4),
                                              (Kill, clock s4 + CONTAINER_TIMEOUT_MS)],
                         clock := clock s4 + elapsed env Wait\<rparr>
                 else (issue Wait s4)\<lparr>clock := clock s4 + elapsed env Wait\<rparr>)
       in case fails env Wait of Some m \<Rightarrow> Inl (m, s5) | None \<Rightarrow> Inr s5)))"

text \<open>From \<open>Date.now() - startTime\<close> to \<open>container.remove()\<close>.\<close>

definition finish :: "environment \<Rightarrow> string \<Rightarrow> nat \<Rightarrow> sup \<Rightarrow> (jsstring \<times> sup) + sup" where
  "finish env jobId startTime s =
     (let executionTime = int (clock s) - int startTime;
          s1 = issue StatsDestroy (issue ClearTimeout s);
          crashed = (StatusCode env \<noteq> 0 \<and> \<not> timedOut s1);
          r = \<lparr>r_stdout = take 10000 (fst (demux (chunks env))),
               r_stderr = take 10000 (snd (demux (chunks env))),
               r_crashed = crashed,
               r_timedOut = timedOut s1,
               r_maxMemoryMb = maxMemoryMb (sampler (frames env)),
               r_maxCpuPercent = maxCpuPercent (sampler (frames env)),
               r_executionTime = executionTime\<rparr>
      in andThen (db_run env DbFinalize (finalize_success jobId r) s1)
           (\<lambda>s2. Inr (attempt env Remove s2)))"

text \<open>The catch block. When its UPDATE rejects, the rejection escapes the executor and
  the promise is never settled.\<close>

definition on_error :: "environment \<Rightarrow> string \<Rightarrow> jsstring \<Rightarrow> sup \<Rightarrow> outcome \<times> sup" where
  "on_error env jobId msg s =
     (case db_run env DbFinalizeError (finalize_failure jobId msg) s of
        Inl (m, s') \<Rightarrow> (Unsettled m, s')
      | Inr s1 \<Rightarrow>
          let s2 = (case container s1 of None \<Rightarrow> s1 | Some c \<Rightarrow> attempt env RemoveForce s1);
              s3 = (if timeout s2 then issue ClearTimeout s2 else s2)
          in (Failed msg, s3))"

definition initial :: "jobs \<Rightarrow> nat \<Rightarrow> sup" where
  "initial db now =
     \<lparr>clock = now, trace = [], store = db, history = [], container = None,
      timeout = False, timedOut = False, uploaded = None\<rparr>"

definition executeJavaInDocker :: "environment \<Rightarrow> string \<Rightarrow> jobs \<Rightarrow> nat \<Rightarrow> outcome \<times> sup" where
  "executeJavaInDocker env jobId db now =
     (let s0 = initial db now;
          startTime = clock s0
      in case andThen (stage env jobId s0)
                (\<lambda>s. andThen (run_sandbox env s) (finish env jobId startTime)) of
           Inr s \<Rightarrow> (Succeeded, s)
         | Inl (msg, s) \<Rightarrow> on_error env jobId msg s)"

section \<open>Observations on a run\<close>

text \<open>The three calls that open the output stream, start the sandbox and open the
  statistics stream, in the order a run issued them.\<close>

definition observer :: "call \<Rightarrow> bool" where
  "observer c = (c = Attach \<or> c = Start \<or> c = Stats)"

definition observers :: "sup \<Rightarrow> call list" where
  "observers s = filter observer (map fst (trace s))"

definition issued_at :: "call \<Rightarrow> sup \<Rightarrow> nat option" where
  "issued_at c s = map_of (trace s) c"

fun status_rank :: "status \<Rightarrow> nat" where
  "status_rank Not_started = 0"
| "status_rank Running = 1"
| "status_rank Done = 2"

text \<open>The status of job \<open>jid\<close> after each successful write of the run.\<close>

definition status_history :: "string \<Rightarrow> sup \<Rightarrow> status list" where
  "status_history jid s =
     concat (map (\<lambda>db. case db jid of None \<Rightarrow> [] | Some j \<Rightarrow> [status j]) (history s))"

text \<open>The columns the catch block does not name.\<close>

definition telemetry ::
  "job \<Rightarrow> jsstring option \<times> bool \<times> jsnum option \<times> jsnum option \<times> int option" where
  "telemetry j =
     (stdout j, timed_out j, memory_usage_mb j, cpu_percent_max j, execution_time_ms j)"

text \<open>Every awaited call up to and including \<open>putArchive\<close> resolves; every awaited call
  from \<open>attach\<close> to \<open>wait\<close> resolves; every awaited call of the success path resolves
  (\<open>kill\<close> and \<open>remove\<close> may reject).\<close>

definition stage_resolves :: "environment \<Rightarrow> bool" where
  "stage_resolves env =
     (fails env DbGet = None \<and> fails env DbMarkRunning = None \<and> fails env CreateTar = None
      \<and> fails env CreateContainer = None \<and> fails env DbSetContainer = None
      \<and> fails env PutArchive = None)"

definition sandbox_resolves :: "environment \<Rightarrow> bool" where
  "sandbox_resolves env =
     (fails env Attach = None \<and> fails env Start = None \<and> fails env Stats = None
      \<and> fails env Wait = None)"

definition resolves :: "environment \<Rightarrow> bool" where
  "resolves env = (stage_resolves env \<and> sandbox_resolves env \<and> fails env DbFinalize = None)"

text \<open>Milliseconds spent between entry and \<open>attach\<close>, and between \<open>attach\<close> and the end
  of \<open>wait\<close>.\<close>

definition staging_ms :: "environment \<Rightarrow> nat" where
  "staging_ms env =
     elapsed env DbGet + elapsed env DbMarkRunning + elapsed env CreateTar
     + elapsed env CreateContainer + elapsed env DbSetContainer + elapsed env PutArchive"

definition sandbox_ms :: "environment \<Rightarrow> nat" where
  "sandbox_ms env = elapsed env Attach + elapsed env Start + elapsed env Stats + elapsed env Wait"

text \<open>The duration in the specification's words (step 9): from the opening of the output
  stream (step 7) to the end of the wait. The source computes no such value; it is stated
  here to be compared with what the source stores. The end of the wait is the instant
  \<open>clearTimeout\<close> is called.\<close>

definition spec_execution_ms :: "sup \<Rightarrow> int option" where
  "spec_execution_ms s =
     (case issued_at Attach s of
        None \<Rightarrow> None
      | Some a \<Rightarrow> (case issued_at ClearTimeout s of
                     None \<Rightarrow> None
                   | Some e \<Rightarrow> Some (int e - int a)))"

text \<open>The size in bytes of the stored \<open>stdout\<close> of a job; 0 when there is none.\<close>

definition stored_stdout_bytes :: "string \<Rightarrow> jobs \<Rightarrow> nat" where
  "stored_stdout_bytes jid db =
     (case db jid of
        None \<Rightarrow> 0
      | Some j \<Rightarrow> (case stdout j of None \<Rightarrow> 0 | Some out \<Rightarrow> utf8_length out))"

section \<open>Example inputs\<close>

definition example_request :: request where
  "example_request =
     \<lparr>req_javaCode = Some ''class Main {}'', req_args = [],
      req_inputFiles = [\<lparr>name = ''../etc/passwd'', content = ''x''\<rparr>]\<rparr>"

definition example_db :: jobs where
  "example_db = snd (submit example_request ''test-api-key-123'' ''job-1'' False 0 Map.empty)"

definition example_stats :: stats where
  "example_stats =
     \<lparr>cpu_total_usage = Some 200, precpu_total_usage = Some 100,
      system_cpu_usage = Some 1000, precpu_system_cpu_usage = Some 1000,
      online_cpus = Some 2, memory_stats = Some (Some 1048576)\<rparr>"

definition example_env :: environment where
  "example_env =
     \<lparr>fails = (\<lambda>c. None), elapsed = (\<lambda>c. if c = Wait then 1000 else 50),
      created_id = ''c1'', chunks = [frame 1 [0x68, 0x69], frame 2 [0x21]],
      frames = [], StatusCode = 0\<rparr>"

text \<open>A program that runs into the timer and is killed (exit code 137); the same run
  with the database rejecting the UPDATE of the success path.\<close>

definition timeout_env :: environment where
  "timeout_env =
     example_env\<lparr>elapsed := (\<lambda>c. if c = Wait then 10200 else 50), StatusCode := 137\<rparr>"

definition busy_env :: environment where
  "busy_env =
     timeout_env\<lparr>fails := (\<lambda>c. if c = DbFinalize then Some (js ''SQLITE_BUSY'') else None)\<rparr>"

text \<open>A frame whose counters went backwards.\<close>

definition backwards_stats :: stats where
  "backwards_stats =
     \<lparr>cpu_total_usage = Some 1000, precpu_total_usage = Some 2000,
      system_cpu_usage = Some 5000, precpu_system_cpu_usage = Some 6000,
      online_cpus = Some 2, memory_stats = Some (Some 1048576)\<rparr>"

text \<open>A frame whose system counters are \<open>2 ^ 53 + 1\<close> and \<open>2 ^ 53\<close>.\<close>

definition large_stats :: stats where
  "large_stats =
     \<lparr>cpu_total_usage = Some 200, precpu_total_usage = Some 100,
      system_cpu_usage = Some 9007199254740993,
      precpu_system_cpu_usage = Some 9007199254740992,
      online_cpus = Some 2, memory_stats = Some (Some 1048576)\<rparr>"

text \<open>One stdout frame whose payload is 10000 times the two bytes of U+00E9.\<close>

definition accents_env :: environment where
  "accents_env =
     example_env\<lparr>chunks := [[1, 0, 0, 0, 0, 0, 0x4E, 0x20] @ concat (replicate 10000 [0xC3, 0xA9])]\<rparr>"

text \<open>The example job after a run that ended in the catch block.\<close>

definition done_db :: jobs where
  "done_db = finalize_failure ''job-1'' (js ''boom'') 5 example_db"

section \<open>Sequencing lemmas\<close>

lemma andThen_Inr_iff: "(andThen r f = Inr y) = (\<exists>x. r = Inr x \<and> f x = Inr y)"
  by (cases r) (auto simp: andThen_def)

lemma andThen_Inl_iff: "(andThen r f = Inl e) = (r = Inl e \<or> (\<exists>x. r = Inr x \<and> f x = Inl e))"
  by (cases r) (auto simp: andThen_def)

lemma perform_Inr_iff:
  "(perform env c s = Inr s') =
   (fails env c = None \<and>
    s' = s\<lparr>clock := clock s + elapsed env c, trace := trace s @ [(c, clock s)]\<rparr>)"
  by (auto simp: perform_def issue_def Let_def split: option.splits)

lemma perform_Inl_iff:
  "(perform env c s = Inl (m, s')) =
   (fails env c = Some m \<and>
    s' = s\<lparr>clock := clock s + elapsed env c, trace := trace s @ [(c, clock s)]\<rparr>)"
  by (auto simp: perform_def issue_def Let_def split: option.splits)

lemma db_run_Inr_iff:
  "(db_run env c stmt s = Inr s') =
   (fails env c = None \<and>
    s' = s\<lparr>clock := clock s + elapsed env c, trace := trace s @ [(c, clock s)],
           store := stmt (clock s + elapsed env c) (store s),
           history := history s @ [stmt (clock s + elapsed env c) (store s)]\<rparr>)"
  by (auto simp: db_run_def andThen_Inr_iff perform_Inr_iff Let_def)

lemma db_run_Inl_iff:
  "(db_run env c stmt s = Inl (m, s')) =
   (fails env c = Some m \<and>
    s' = s\<lparr>clock := clock s + elapsed env c, trace := trace s @ [(c, clock s)]\<rparr>)"
  by (auto simp: db_run_def andThen_Inl_iff perform_Inl_iff perform_Inr_iff Let_def)

lemmas seq_iffs =
  andThen_Inr_iff andThen_Inl_iff perform_Inr_iff perform_Inl_iff db_run_Inr_iff db_run_Inl_iff

lemmas store_defs =
  mark_running_def set_container_id_def finalize_success_def finalize_failure_def update_job_def

lemma stage_Inr:
  assumes "stage env jid s = Inr s'"
  shows "store s jid \<noteq> None \<and> fails env DbGet = None \<and> fails env DbMarkRunning = None
     \<and> fails env CreateTar = None \<and> fails env CreateContainer = None
     \<and> fails env DbSetContainer = None \<and> fails env PutArchive = None"
  using assms by (auto simp: stage_def seq_iffs split: option.splits)

lemma run_sandbox_Inr:
  assumes "run_sandbox env s = Inr s'"
  shows "fails env Attach = None \<and> fails env Start = None \<and> fails env Stats = None
     \<and> fails env Wait = None"
  using assms
  by (auto simp: run_sandbox_def seq_iffs Let_def split: option.splits)

lemma finish_Inr:
  assumes "finish env jid t s = Inr s'"
  shows "fails env DbFinalize = None"
  using assms by (auto simp: finish_def seq_iffs Let_def)

lemma on_error_not_Succeeded: "fst (on_error env jid m s) \<noteq> Succeeded"
  by (auto simp: on_error_def Let_def split: sum.splits option.splits prod.splits)

lemma run_cases:
  "(\<exists>m s1. stage env jid (initial db now) = Inl (m, s1)
        \<and> executeJavaInDocker env jid db now = on_error env jid m s1)
 \<or> (\<exists>s1 m s2. stage env jid (initial db now) = Inr s1 \<and> run_sandbox env s1 = Inl (m, s2)
        \<and> executeJavaInDocker env jid db now = on_error env jid m s2)
 \<or> (\<exists>s1 s2 m s3. stage env jid (initial db now) = Inr s1 \<and> run_sandbox env s1 = Inr s2
        \<and> finish env jid now s2 = Inl (m, s3)
        \<and> executeJavaInDocker env jid db now = on_error env jid m s3)
 \<or> (\<exists>s1 s2 s3. stage env jid (initial db now) = Inr s1 \<and> run_sandbox env s1 = Inr s2
        \<and> finish env jid now s2 = Inr s3
        \<and> executeJavaInDocker env jid db now = (Succeeded, s3))"
proof (cases "stage env jid (initial db now)")
  case (Inl e)
  then show ?thesis
    by (cases e) (simp add: executeJavaInDocker_def andThen_def Let_def)
next
  case st: (Inr s1)
  show ?thesis
  proof (cases "run_sandbox env s1")
    case (Inl e)
    with st show ?thesis
      by (cases e) (simp add: executeJavaInDocker_def andThen_def Let_def)
  next
    case rs: (Inr s2)
    have clk: "clock (initial db now) = now" by (simp add: initial_def)
    show ?thesis
    proof (cases "finish env jid now s2")
      case (Inl e)
      with st rs clk show ?thesis
        by (cases e) (simp add: executeJavaInDocker_def andThen_def Let_def)
    next
      case (Inr s3)
      with st rs clk show ?thesis
        by (simp add: executeJavaInDocker_def andThen_def Let_def)
    qed
  qed
qed

lemma succeededD:
  assumes "fst (executeJavaInDocker env jid db now) = Succeeded"
  shows "db jid \<noteq> None \<and> resolves env"
proof -
  from run_cases [of env jid db now] assms
  obtain s1 s2 s3 where a: "stage env jid (initial db now) = Inr s1"
    and b: "run_sandbox env s1 = Inr s2" and c: "finish env jid now s2 = Inr s3"
    by (auto simp: on_error_not_Succeeded)
  from stage_Inr [OF a] run_sandbox_Inr [OF b] finish_Inr [OF c]
  show ?thesis by (simp add: initial_def resolves_def stage_resolves_def sandbox_resolves_def)
qed

subsection \<open>The success path, executed symbolically\<close>

lemma perform_ok:
  "fails env c = None \<Longrightarrow>
   perform env c s = Inr (s\<lparr>clock := clock s + elapsed env c, trace := trace s @ [(c, clock s)]\<rparr>)"
  by (simp add: perform_def issue_def Let_def)

lemma db_run_ok:
  "fails env c = None \<Longrightarrow>
   db_run env c stmt s =
     Inr (s\<lparr>clock := clock s + elapsed env c, trace := trace s @ [(c, clock s)],
           store := stmt (clock s + elapsed env c) (store s),
           history := history s @ [stmt (clock s + elapsed env c) (store s)]\<rparr>)"
  by (simp add: db_run_def perform_ok andThen_def Let_def)

lemma stage_ok:
  assumes "store s jid = Some j" and "stage_resolves env"
  shows "stage env jid s =
     Inr (s\<lparr>clock := clock s + staging_ms env,
           trace := trace s @
             [(DbGet, clock s),
              (DbMarkRunning, clock s + elapsed env DbGet),
              (CreateTar, clock s + elapsed env DbGet + elapsed env DbMarkRunning),
              (CreateContainer,
                 clock s + elapsed env DbGet + elapsed env DbMarkRunning + elapsed env CreateTar),
              (DbSetContainer,
                 clock s + elapsed env DbGet + elapsed env DbMarkRunning + elapsed env CreateTar
                 + elapsed env CreateContainer),
              (PutArchive,
                 clock s + elapsed env DbGet + elapsed env DbMarkRunning + elapsed env CreateTar
                 + elapsed env CreateContainer + elapsed env DbSetContainer)],
           store := set_container_id jid (created_id env)
                      (mark_running jid (clock s + elapsed env DbGet + elapsed env DbMarkRunning)
                         (store s)),
           history := history s @
             [mark_running jid (clock s + elapsed env DbGet + elapsed env DbMarkRunning) (store s),
              set_container_id jid (created_id env)
                (mark_running jid (clock s + elapsed env DbGet + elapsed env DbMarkRunning)
                   (store s))],
           container := Some (created_id env),
           uploaded := Some (createTarArchive (java_code j) (input_files j))\<rparr>)"
  using assms
  by (simp add: stage_def stage_resolves_def perform_ok db_run_ok andThen_def staging_ms_def
        add.assoc)

lemma attempt_eq:
  "attempt env c s = s\<lparr>clock := clock s + elapsed env c, trace := trace s @ [(c, clock s)]\<rparr>"
  by (simp add: attempt_def perform_def issue_def Let_def split: option.splits)

lemma run_sandbox_ok:
  assumes "sandbox_resolves env"
  shows "run_sandbox env s =
     Inr (s\<lparr>clock := clock s + sandbox_ms env,
           trace := trace s @
             [(Attach, clock s),
              (Start, clock s + elapsed env Attach),
              (Stats, clock s + elapsed env Attach + elapsed env Start),
              (SetTimeout, clock s + elapsed env Attach + elapsed env Start + elapsed env Stats),
              (Wait, clock s + elapsed env Attach + elapsed env Start + elapsed env Stats)]
             @ (if deadline_fired env
                then [(Kill, clock s + elapsed env Attach + elapsed env Start + elapsed env Stats
                             + CONTAINER_TIMEOUT_MS)]
                else []),
           timeout := True,
           timedOut := (if deadline_fired env then True else timedOut s)\<rparr>)"
  using assms
  by (simp add: run_sandbox_def sandbox_resolves_def perform_ok andThen_def issue_def sandbox_ms_def
        Let_def add.assoc)

lemma finish_ok:
  assumes "fails env DbFinalize = None"
  shows "finish env jid t s =
     Inr (s\<lparr>clock := clock s + elapsed env DbFinalize + elapsed env Remove,
           trace := trace s @
             [(ClearTimeout, clock s), (StatsDestroy, clock s), (DbFinalize, clock s),
              (Remove, clock s + elapsed env DbFinalize)],
           store := finalize_success jid
              \<lparr>r_stdout = take 10000 (fst (demux (chunks env))),
               r_stderr = take 10000 (snd (demux (chunks env))),
               r_crashed = (StatusCode env \<noteq> 0 \<and> \<not> timedOut s),
               r_timedOut = timedOut s,
               r_maxMemoryMb = maxMemoryMb (sampler (frames env)),
               r_maxCpuPercent = maxCpuPercent (sampler (frames env)),
               r_executionTime = int (clock s) - int t\<rparr>
              (clock s + elapsed env DbFinalize) (store s),
           history := history s @
             [finalize_success jid
              \<lparr>r_stdout = take 10000 (fst (demux (chunks env))),
               r_stderr = take 10000 (snd (demux (chunks env))),
               r_crashed = (StatusCode env \<noteq> 0 \<and> \<not> timedOut s),
               r_timedOut = timedOut s,
               r_maxMemoryMb = maxMemoryMb (sampler (frames env)),
               r_maxCpuPercent = maxCpuPercent (sampler (frames env)),
               r_executionTime = int (clock s) - int t\<rparr>
              (clock s + elapsed env DbFinalize) (store s)]\<rparr>)"
  using assms
  by (simp add: finish_def db_run_ok attempt_eq andThen_def issue_def Let_def
        add.assoc)

lemma resolves_stage: "resolves env \<Longrightarrow> stage_resolves env"
  and resolves_sandbox: "resolves env \<Longrightarrow> sandbox_resolves env"
  and resolves_finalize: "resolves env \<Longrightarrow> fails env DbFinalize = None"
  by (simp_all add: resolves_def)

lemma success_run:
  assumes "db jid = Some j" and "resolves env"
  shows "\<exists>s1 s2 s3. stage env jid (initial db now) = Inr s1 \<and> run_sandbox env s1 = Inr s2
      \<and> finish env jid now s2 = Inr s3 \<and> executeJavaInDocker env jid db now = (Succeeded, s3)"
proof -
  have "store (initial db now) jid = Some j" using assms by (simp add: initial_def)
  from stage_ok [OF this resolves_stage [OF assms(2)]] obtain s1 where a: "stage env jid (initial db now) = Inr s1"
    by blast
  from run_sandbox_ok [OF resolves_sandbox [OF assms(2)]] obtain s2 where b: "run_sandbox env s1 = Inr s2"
    by blast
  from finish_ok [OF resolves_finalize [OF assms(2)]] obtain s3 where c: "finish env jid now s2 = Inr s3"
    by blast
  from a b c show ?thesis
    by (simp add: executeJavaInDocker_def andThen_def Let_def initial_def)
qed

lemma success_outcome:
  assumes "db jid = Some j" and "resolves env"
  shows "fst (executeJavaInDocker env jid db now) = Succeeded"
  using success_run [where db = db and jid = jid and now = now, OF assms] by auto

lemma success_store:
  assumes "db jid = Some j" and "resolves env"
  shows "store (snd (executeJavaInDocker env jid db now)) jid =
     Some (j\<lparr>status := Done,
             stdout := Some (text_column (take 10000 (fst (demux (chunks env))))),
             stderr := Some (text_column (take 10000 (snd (demux (chunks env))))),
             crashed := (StatusCode env \<noteq> 0 \<and> \<not> deadline_fired env),
             timed_out := deadline_fired env,
             memory_usage_mb := Some (maxMemoryMb (sampler (frames env))),
             cpu_percent_max := Some (maxCpuPercent (sampler (frames env))),
             execution_time_ms := Some (int (staging_ms env + sandbox_ms env)),
             started_at := Some (now + elapsed env DbGet + elapsed env DbMarkRunning),
             completed_at :=
               Some (now + staging_ms env + sandbox_ms env + elapsed env DbFinalize),
             container_id := Some (created_id env)\<rparr>)"
proof -
  have st: "store (initial db now) jid = Some j" using assms by (simp add: initial_def)
  have "store (snd (executeJavaInDocker env jid db now)) jid =
        finalize_success jid
          \<lparr>r_stdout = take 10000 (fst (demux (chunks env))),
           r_stderr = take 10000 (snd (demux (chunks env))),
           r_crashed = (StatusCode env \<noteq> 0 \<and> \<not> deadline_fired env),
           r_timedOut = deadline_fired env,
           r_maxMemoryMb = maxMemoryMb (sampler (frames env)),
           r_maxCpuPercent = maxCpuPercent (sampler (frames env)),
           r_executionTime = int (staging_ms env + sandbox_ms env)\<rparr>
          (now + staging_ms env + sandbox_ms env + elapsed env DbFinalize)
          (set_container_id jid (created_id env)
             (mark_running jid (now + elapsed env DbGet + elapsed env DbMarkRunning) db)) jid"
    apply (simp add: executeJavaInDocker_def andThen_def Let_def stage_ok [OF st resolves_stage [OF assms(2)]]
          run_sandbox_ok [OF resolves_sandbox [OF assms(2)]] finish_ok [OF resolves_finalize [OF assms(2)]])
    apply (simp add: initial_def)
    done
  then show ?thesis
    by (simp add: store_defs assms(1))
qed

lemma success_trace:
  assumes "db jid = Some j" and "resolves env"
  shows "map fst (trace (snd (executeJavaInDocker env jid db now))) =
     [DbGet, DbMarkRunning, CreateTar, CreateContainer, DbSetContainer, PutArchive,
      Attach, Start, Stats, SetTimeout, Wait]
     @ (if deadline_fired env then [Kill] else [])
     @ [ClearTimeout, StatsDestroy, DbFinalize, Remove]"
proof -
  have st: "store (initial db now) jid = Some j" using assms by (simp add: initial_def)
  show ?thesis
    apply (simp add: executeJavaInDocker_def andThen_def Let_def stage_ok [OF st resolves_stage [OF assms(2)]]
          run_sandbox_ok [OF resolves_sandbox [OF assms(2)]] finish_ok [OF resolves_finalize [OF assms(2)]])
    apply (simp add: initial_def)
    done
qed

lemma success_uploaded:
  assumes "db jid = Some j" and "resolves env"
  shows "uploaded (snd (executeJavaInDocker env jid db now)) =
     Some (createTarArchive (java_code j) (input_files j))"
proof -
  have st: "store (initial db now) jid = Some j" using assms by (simp add: initial_def)
  show ?thesis
    by (simp add: executeJavaInDocker_def andThen_def Let_def stage_ok [OF st resolves_stage [OF assms(2)]]
          run_sandbox_ok [OF resolves_sandbox [OF assms(2)]] finish_ok [OF resolves_finalize [OF assms(2)]])
qed

lemma success_issued_at:
  assumes "db jid = Some j" and "resolves env"
  shows "issued_at Attach (snd (executeJavaInDocker env jid db now)) = Some (now + staging_ms env)"
    and "issued_at ClearTimeout (snd (executeJavaInDocker env jid db now)) =
           Some (now + staging_ms env + sandbox_ms env)"
proof -
  have st: "store (initial db now) jid = Some j" using assms by (simp add: initial_def)
  show "issued_at Attach (snd (executeJavaInDocker env jid db now)) = Some (now + staging_ms env)"
    apply (simp add: executeJavaInDocker_def andThen_def Let_def stage_ok [OF st resolves_stage [OF assms(2)]]
          run_sandbox_ok [OF resolves_sandbox [OF assms(2)]] finish_ok [OF resolves_finalize [OF assms(2)]] issued_at_def)
    apply (simp add: initial_def)
    done
  show "issued_at ClearTimeout (snd (executeJavaInDocker env jid db now)) =
           Some (now + staging_ms env + sandbox_ms env)"
    apply (simp add: executeJavaInDocker_def andThen_def Let_def stage_ok [OF st resolves_stage [OF assms(2)]]
          run_sandbox_ok [OF resolves_sandbox [OF assms(2)]] finish_ok [OF resolves_finalize [OF assms(2)]] issued_at_def)
    apply (simp add: initial_def)
    done
qed

lemma success_status_history:
  assumes "db jid = Some j" and "resolves env"
  shows "status_history jid (snd (executeJavaInDocker env jid db now)) = [Running, Running, Done]"
proof -
  have st: "store (initial db now) jid = Some j" using assms by (simp add: initial_def)
  show ?thesis
    apply (simp add: executeJavaInDocker_def andThen_def Let_def stage_ok [OF st resolves_stage [OF assms(2)]]
          run_sandbox_ok [OF resolves_sandbox [OF assms(2)]] finish_ok [OF resolves_finalize [OF assms(2)]] status_history_def)
    apply (simp add: initial_def store_defs assms(1))
    done
qed

lemma example_db_job:
  "example_db ''job-1'' =
     Some \<lparr>job_id = ''job-1'', api_key = ''test-api-key-123'', status = Not_started,
           java_code = ''class Main {}'', args = [],
           input_files = [\<lparr>name = ''../etc/passwd'', content = ''x''\<rparr>],
           stdout = None, stderr = None, crashed = False, timed_out = False,
           memory_usage_mb = None, cpu_percent_max = None, execution_time_ms = None,
           created_at = 0, started_at = None, completed_at = None, container_id = None\<rparr>"
  by (simp add: example_db_def example_request_def submit_def insert_job_def)

lemma example_env_resolves: "resolves example_env"
  by (simp add: resolves_def stage_resolves_def sandbox_resolves_def example_env_def)

lemma resolves_update:
  "resolves (env\<lparr>StatusCode := c\<rparr>) = resolves env"
  "resolves (env\<lparr>chunks := cs\<rparr>) = resolves env"
  "resolves (env\<lparr>frames := fs\<rparr>) = resolves env"
  "resolves (env\<lparr>elapsed := e\<rparr>) = resolves env"
  by (simp_all add: resolves_def stage_resolves_def sandbox_resolves_def)

lemma finish_rejected:
  assumes "fails env DbFinalize = Some m"
  shows "finish env jid t s =
     Inl (m, s\<lparr>clock := clock s + elapsed env DbFinalize,
                trace := trace s @
                  [(ClearTimeout, clock s), (StatsDestroy, clock s), (DbFinalize, clock s)]\<rparr>)"
  using assms
  by (simp add: finish_def db_run_def perform_def andThen_def issue_def Let_def)

text \<open>The row after a run whose wait resolved and whose success-path UPDATE was rejected:
  the catch block has written it.\<close>

lemma update_rejected_store:
  assumes "db jid = Some j" and "stage_resolves env" and "sandbox_resolves env"
    and "fails env DbFinalize = Some m" and "fails env DbFinalizeError = None"
  shows "store (snd (executeJavaInDocker env jid db now)) jid =
     Some (j\<lparr>status := Done, crashed := True, stderr := Some (text_column m),
             started_at := Some (now + elapsed env DbGet + elapsed env DbMarkRunning),
             completed_at :=
               Some (now + staging_ms env + sandbox_ms env + elapsed env DbFinalize
                     + elapsed env DbFinalizeError),
             container_id := Some (created_id env)\<rparr>)"
proof -
  have st: "store (initial db now) jid = Some j" using assms(1) by (simp add: initial_def)
  have "store (snd (executeJavaInDocker env jid db now)) jid =
        finalize_failure jid m
          (now + staging_ms env + sandbox_ms env + elapsed env DbFinalize
           + elapsed env DbFinalizeError)
          (set_container_id jid (created_id env)
             (mark_running jid (now + elapsed env DbGet + elapsed env DbMarkRunning) db)) jid"
    apply (simp add: executeJavaInDocker_def andThen_def Let_def stage_ok [OF st assms(2)]
          run_sandbox_ok [OF assms(3)] finish_rejected [OF assms(4)])
    apply (simp add: on_error_def db_run_ok [OF assms(5)] attempt_eq issue_def Let_def)
    apply (simp add: initial_def)
    done
  then show ?thesis
    by (simp add: store_defs assms(1))
qed

lemma timeout_env_facts:
  "resolves timeout_env" "deadline_fired timeout_env"
  "stage_resolves busy_env" "sandbox_resolves busy_env" "deadline_fired busy_env"
  "fails busy_env DbFinalize = Some (js ''SQLITE_BUSY'')" "fails busy_env DbFinalizeError = None"
  "StatusCode busy_env = 137"
  by (simp_all add: timeout_env_def busy_env_def example_env_def resolves_def stage_resolves_def
        sandbox_resolves_def deadline_fired_def CONTAINER_TIMEOUT_MS_def)

section \<open>Properties of the engine\<close>

text \<open>
  C1 (as the code has it). When the timer fired before the wait resolved and the run
  then takes the success path (the wait resolves with an exit code and the UPDATE of the
  results is applied), the row records a timeout: \<open>timed_out\<close> is set and \<open>crashed\<close> is
  clear, whatever exit code the wait resolved with (\<open>StatusCode env\<close> is arbitrary).
\<close>

theorem timeout_dominates:
  assumes "fst (executeJavaInDocker env jid db now) = Succeeded" and "deadline_fired env"
  shows "\<exists>j. store (snd (executeJavaInDocker env jid db now)) jid = Some j
     \<and> status j = Done \<and> timed_out j \<and> \<not> crashed j"
proof -
  from succeededD [OF assms(1)] obtain j0 where j0: "db jid = Some j0" and r: "resolves env"
    by auto
  show ?thesis
    using assms(2) by (simp add: success_store [where db = db and jid = jid, OF j0 r])
qed

theorem timeout_dominates_witness:
  "fst (executeJavaInDocker timeout_env ''job-1'' example_db 0) = Succeeded
   \<and> deadline_fired timeout_env
   \<and> (\<exists>j. store (snd (executeJavaInDocker timeout_env ''job-1'' example_db 0)) ''job-1'' = Some j
        \<and> status j = Done \<and> timed_out j \<and> \<not> crashed j)"
proof -
  have a: "fst (executeJavaInDocker timeout_env ''job-1'' example_db 0) = Succeeded"
    by (rule success_outcome [where db = example_db and jid = "''job-1''", OF example_db_job
          timeout_env_facts(1)])
  note b = timeout_env_facts(2)
  from a b timeout_dominates [OF a b] show ?thesis by blast
qed

text \<open>The timer fired and the wait resolved with exit code 137, but the database rejected
  the UPDATE of the results: the catch block finalized the job as crashed and
  \<open>timed_out\<close> is still clear.\<close>

theorem timeout_lost_counterexample:
  "deadline_fired busy_env \<and> StatusCode busy_env = 137
   \<and> map_option (\<lambda>j. (status j, timed_out j, crashed j))
        (store (snd (executeJavaInDocker busy_env ''job-1'' example_db 0)) ''job-1'')
      = Some (Done, False, True)"
  by (simp add: timeout_env_facts
        update_rejected_store [where db = example_db and jid = "''job-1''", OF example_db_job
          timeout_env_facts(3) timeout_env_facts(4) timeout_env_facts(6) timeout_env_facts(7)])

text \<open>
  C7 (as the code has it). \<open>startTime\<close> is read on entry, before the job is loaded, so the
  stored \<open>execution_time_ms\<close> of a run that writes its results is the time from entry to
  the end of the wait: the time spent loading the job, marking it running, building the
  archive, creating the container and uploading, plus the time from \<open>attach\<close> to the end
  of the wait.
\<close>

theorem execution_time_from_entry:
  assumes "fst (executeJavaInDocker env jid db now) = Succeeded"
  shows "\<exists>j t_end. store (snd (executeJavaInDocker env jid db now)) jid = Some j
     \<and> issued_at ClearTimeout (snd (executeJavaInDocker env jid db now)) = Some t_end
     \<and> execution_time_ms j = Some (int t_end - int now)
     \<and> int t_end - int now = int (staging_ms env + sandbox_ms env)"
proof -
  from succeededD [OF assms] obtain j0 where j0: "db jid = Some j0" and r: "resolves env"
    by auto
  show ?thesis
    by (simp add: success_store [where db = db and jid = jid, OF j0 r]
          success_issued_at [where db = db and jid = jid, OF j0 r])
qed

theorem execution_time_from_entry_witness:
  "fst (executeJavaInDocker example_env ''job-1'' example_db 0) = Succeeded
   \<and> (\<exists>j t_end. store (snd (executeJavaInDocker example_env ''job-1'' example_db 0)) ''job-1'' = Some j
     \<and> issued_at ClearTimeout (snd (executeJavaInDocker example_env ''job-1'' example_db 0)) = Some t_end
     \<and> execution_time_ms j = Some (int t_end - int 0)
     \<and> int t_end - int 0 = int (staging_ms example_env + sandbox_ms example_env))"
proof -
  have a: "fst (executeJavaInDocker example_env ''job-1'' example_db 0) = Succeeded"
    by (rule success_outcome [where db = example_db and jid = "''job-1''", OF example_db_job
          example_env_resolves])
  from a execution_time_from_entry [OF a] show ?thesis by blast
qed

lemma example_env_ms: "staging_ms example_env = 300" "sandbox_ms example_env = 1150"
  by (simp_all add: staging_ms_def sandbox_ms_def example_env_def)

text \<open>In the example run staging takes 300 ms and the sandbox 1150 ms: the stored value
  is 1450, not the 1150 that elapse between \<open>attach\<close> and the end of the wait.\<close>

theorem execution_time_counterexample:
  "map_option execution_time_ms
     (store (snd (executeJavaInDocker example_env ''job-1'' example_db 0)) ''job-1'')
   \<noteq> Some (spec_execution_ms (snd (executeJavaInDocker example_env ''job-1'' example_db 0)))"
proof -
  note s = success_store [where db = example_db and jid = "''job-1''" and now = 0,
      OF example_db_job example_env_resolves]
  note i = success_issued_at [where db = example_db and jid = "''job-1''" and now = 0,
      OF example_db_job example_env_resolves]
  show ?thesis
    by (simp add: s i spec_execution_ms_def example_env_ms)
qed

text \<open>The only request the handler turns away with status 400 is one without source text.\<close>

lemma submit_rejects_iff:
  "(fst (submit req key jid insert_err now db) = Status400) =
   (req_javaCode req = None \<or> req_javaCode req = Some [])"
  by (simp add: submit_def split: option.splits)

subsection \<open>Every path: what the run uploads\<close>

lemma stage_uploaded:
  assumes "store s jid = Some j" and "uploaded s = None"
  shows "stage env jid s = Inl (m, s') \<Longrightarrow> \<not> stage_resolves env \<and> uploaded s' = None"
    and "stage env jid s = Inr s' \<Longrightarrow>
           stage_resolves env \<and>
           uploaded s' = Some (createTarArchive (java_code j) (input_files j))"
  using assms
  by (auto simp: stage_def seq_iffs stage_resolves_def split: option.splits)

lemma run_sandbox_uploaded:
  "run_sandbox env s = Inl (m, s') \<Longrightarrow> uploaded s' = uploaded s"
  "run_sandbox env s = Inr s' \<Longrightarrow> uploaded s' = uploaded s"
  by (auto simp: run_sandbox_def seq_iffs issue_def Let_def split: option.splits if_splits)

lemma finish_uploaded:
  "finish env jid t s = Inl (m, s') \<Longrightarrow> uploaded s' = uploaded s"
  "finish env jid t s = Inr s' \<Longrightarrow> uploaded s' = uploaded s"
  by (auto simp: finish_def seq_iffs issue_def attempt_eq Let_def)

lemma on_error_uploaded: "uploaded (snd (on_error env jid m s)) = uploaded s"
  by (auto simp: on_error_def db_run_def andThen_def perform_def attempt_eq issue_def Let_def
        split: option.splits sum.splits)

lemma run_uploaded:
  assumes "db jid = Some j"
  shows "uploaded (snd (executeJavaInDocker env jid db now)) =
     (if stage_resolves env then Some (createTarArchive (java_code j) (input_files j))
      else None)"
proof -
  have init: "store (initial db now) jid = Some j" "uploaded (initial db now) = None"
    using assms by (simp_all add: initial_def)
  note st = stage_uploaded [OF init]
  show ?thesis
    using run_cases [of env jid db now]
  proof (elim disjE exE conjE)
    fix m s1
    assume a: "stage env jid (initial db now) = Inl (m, s1)"
      and "executeJavaInDocker env jid db now = on_error env jid m s1"
    then show ?thesis
      using st(1) [OF a] by (simp add: on_error_uploaded)
  next
    fix s1 m s2
    assume a: "stage env jid (initial db now) = Inr s1" and b: "run_sandbox env s1 = Inl (m, s2)"
      and "executeJavaInDocker env jid db now = on_error env jid m s2"
    then show ?thesis
      using st(2) [OF a] run_sandbox_uploaded(1) [OF b] by (simp add: on_error_uploaded)
  next
    fix s1 s2 m s3
    assume a: "stage env jid (initial db now) = Inr s1" and b: "run_sandbox env s1 = Inr s2"
      and c: "finish env jid now s2 = Inl (m, s3)"
      and "executeJavaInDocker env jid db now = on_error env jid m s3"
    then show ?thesis
      using st(2) [OF a] run_sandbox_uploaded(2) [OF b] finish_uploaded(1) [OF c]
      by (simp add: on_error_uploaded)
  next
    fix s1 s2 s3
    assume a: "stage env jid (initial db now) = Inr s1" and b: "run_sandbox env s1 = Inr s2"
      and c: "finish env jid now s2 = Inr s3"
      and "executeJavaInDocker env jid db now = (Succeeded, s3)"
    then show ?thesis
      using st(2) [OF a] run_sandbox_uploaded(2) [OF b] finish_uploaded(2) [OF c]
      by simp
  qed
qed

lemma example_env_stage_resolves: "stage_resolves example_env"
  by (rule resolves_stage [OF example_env_resolves])

text \<open>
  C2 (as the code has it). The submit handler looks at \<open>javaCode\<close> only; the names of
  the input files are never examined. A request is turned away with status 400 exactly
  when its source text is missing or empty. A request with source text is answered 500,
  and no job is created, when the INSERT fails; otherwise it is accepted, and the run of
  its job uploads, exactly when every call up to and including \<open>putArchive\<close> resolves, an
  archive of \<open>Main.java\<close> followed by every input file that has a non-empty name and a
  non-empty content, each under the name it was given; otherwise it uploads nothing.
\<close>

theorem submit_stages_every_name:
  assumes "req_javaCode req = Some code" and "code \<noteq> []"
  shows "(fst (submit r0 key jid insert_err now db) = Status400) =
           (req_javaCode r0 = None \<or> req_javaCode r0 = Some [])
     \<and> fst (submit req key jid insert_err now db) =
           (if insert_err \<or> db jid \<noteq> None then Status500 else Submitted jid)
     \<and> (if insert_err \<or> db jid \<noteq> None then snd (submit req key jid insert_err now db) = db
         else map_option input_files (snd (submit req key jid insert_err now db) jid) =
                Some (req_inputFiles req)
           \<and> uploaded (snd (executeJavaInDocker env jid
                               (snd (submit req key jid insert_err now db)) t)) =
           (if stage_resolves env
            then Some ((''Main.java'', code) #
                       map (\<lambda>file. (name file, content file))
                         (filter (\<lambda>file. name file \<noteq> [] \<and> content file \<noteq> [])
                            (req_inputFiles req)))
            else None))"
proof (cases "insert_err \<or> db jid \<noteq> None")
  case True
  have "fst (submit req key jid insert_err now db) = Status500"
    and "snd (submit req key jid insert_err now db) = db"
    using assms True by (auto simp: submit_def)
  with True show ?thesis
    by (simp only: if_P submit_rejects_iff simp_thms)
next
  case False
  let ?db = "snd (submit req key jid insert_err now db)"
  have sub: "submit req key jid insert_err now db =
      (Submitted jid, insert_job jid key code (req_args req) (req_inputFiles req) now db)"
    using assms False by (simp add: submit_def)
  obtain j where j: "?db jid = Some j" and jc: "java_code j = code"
    and jf: "input_files j = req_inputFiles req"
    by (simp add: sub insert_job_def)
  have "uploaded (snd (executeJavaInDocker env jid ?db t)) =
      (if stage_resolves env
       then Some ((''Main.java'', code) #
                  map (\<lambda>file. (name file, content file))
                    (filter (\<lambda>file. name file \<noteq> [] \<and> content file \<noteq> [])
                       (req_inputFiles req)))
       else None)"
    by (simp add: run_uploaded [where db = "?db" and jid = jid, OF j] jc jf createTarArchive_def)
  moreover have "fst (submit req key jid insert_err now db) = Submitted jid"
    by (simp add: sub)
  moreover have "map_option input_files (?db jid) = Some (req_inputFiles req)"
    by (simp add: j jf)
  ultimately show ?thesis
    using False by (simp only: if_not_P submit_rejects_iff simp_thms)
qed

theorem submit_stages_every_name_witness:
  "req_javaCode example_request = Some ''class Main {}'' \<and> ''class Main {}'' \<noteq> []
   \<and> fst (submit example_request ''test-api-key-123'' ''job-1'' False 0 Map.empty) = Submitted ''job-1''
   \<and> uploaded (snd (executeJavaInDocker example_env ''job-1''
            (snd (submit example_request ''test-api-key-123'' ''job-1'' False 0 Map.empty)) 0)) =
         Some ((''Main.java'', ''class Main {}'') #
               map (\<lambda>file. (name file, content file))
                 (filter (\<lambda>file. name file \<noteq> [] \<and> content file \<noteq> [])
                    (req_inputFiles example_request)))"
proof -
  have a: "req_javaCode example_request = Some ''class Main {}''"
    by (simp add: example_request_def)
  have b: "''class Main {}'' \<noteq> []" by simp
  from submit_stages_every_name [where req = example_request and key = "''test-api-key-123''"
      and jid = "''job-1''" and insert_err = False and now = 0 and db = Map.empty
      and env = example_env and t = 0, OF a b] a b
  show ?thesis
    by (simp add: example_env_stage_resolves)
qed

text \<open>A file called \<open>../etc/passwd\<close> is accepted and is an entry of the uploaded archive.\<close>

theorem traversal_name_counterexample:
  "fst (submit example_request ''test-api-key-123'' ''job-1'' False 0 Map.empty) = Submitted ''job-1''
   \<and> uploaded (snd (executeJavaInDocker example_env ''job-1''
            (snd (submit example_request ''test-api-key-123'' ''job-1'' False 0 Map.empty)) 0)) =
       Some [(''Main.java'', ''class Main {}''), (''../etc/passwd'', ''x'')]"
proof -
  have "uploaded (snd (executeJavaInDocker example_env ''job-1'' example_db 0)) =
       Some [(''Main.java'', ''class Main {}''), (''../etc/passwd'', ''x'')]"
    by (simp add: success_uploaded [where db = example_db and jid = "''job-1''", OF example_db_job
          example_env_resolves] createTarArchive_def)
  then show ?thesis
    by (simp add: example_db_def) (simp add: submit_def example_request_def)
qed

text \<open>
  C5 (as the code has it). Each finalization is one UPDATE that writes its columns
  together, and the UPDATE is keyed by the id alone: a later finalization of the same job
  is applied like the first one and overwrites every column it names. A success-path
  write replaces an earlier finalization altogether; a catch-block write after a
  success-path one replaces \<open>crashed\<close>, \<open>stderr\<close> and \<open>completed_at\<close> and keeps the rest.
\<close>

theorem finalize_last_write_wins:
  "finalize_success jid r2 t2 (finalize_success jid r1 t1 db) = finalize_success jid r2 t2 db
   \<and> finalize_success jid r2 t2 (finalize_failure jid m1 t1 db) = finalize_success jid r2 t2 db
   \<and> finalize_failure jid m2 t2 (finalize_failure jid m1 t1 db) = finalize_failure jid m2 t2 db
   \<and> finalize_failure jid m2 t2 (finalize_success jid r1 t1 db) =
       finalize_success jid
         (r1\<lparr>r_stderr := m2, r_crashed := True\<rparr>) t2 db"
  by (auto simp: finalize_success_def finalize_failure_def update_job_def fun_eq_iff
        split: option.splits)

text \<open>A second finalization of a finished job is not turned away: it changes the row.\<close>

theorem second_finalize_counterexample:
  "finalize_failure ''job-1'' (js ''late'') 9
     (finalize_success ''job-1''
        \<lparr>r_stdout = js ''hi'', r_stderr = [], r_crashed = False, r_timedOut = False,
         r_maxMemoryMb = Fin 0, r_maxCpuPercent = Fin 0, r_executionTime = 5\<rparr> 5 example_db) ''job-1''
   \<noteq> finalize_success ''job-1''
        \<lparr>r_stdout = js ''hi'', r_stderr = [], r_crashed = False, r_timedOut = False,
         r_maxMemoryMb = Fin 0, r_maxCpuPercent = Fin 0, r_executionTime = 5\<rparr> 5 example_db ''job-1''"
  by (simp add: finalize_success_def finalize_failure_def update_job_def example_db_job)

lemma js_div_zero:
  "js_div x (Fin 0) =
     (if js_gt x (Fin 0) then PInf else if js_gt (Fin 0) x then NInf else NaN)"
  by (cases x) auto

lemma example_stats_values:
  "systemDelta example_stats = Fin 0" "cpuDelta example_stats = Fin 100"
  "num_of (online_cpus example_stats) = Fin 2"
  by (simp_all add: systemDelta_def cpuDelta_def example_stats_def num_of_def round64_def)

text \<open>
  C6 (as the code has it). The division is not guarded: for every frame that parses, the
  CPU sample is \<open>((cpuDelta / systemDelta) * online_cpus) * 100\<close> in double arithmetic,
  whatever the system delta is, and the peak becomes the sample whenever the sample
  compares greater. When the system delta is zero the sample is \<open>Infinity\<close> if the CPU
  delta and the number of CPUs are both positive or both negative, \<open>-Infinity\<close> if they
  have opposite strict signs and \<open>NaN\<close> otherwise. The handler is total: it raises
  nothing and the sampler goes on.
\<close>

theorem cpu_sample_not_skipped:
  "maxCpuPercent (stats_on_data (Some st) p) =
     (if js_gt (cpuPercent st) (maxCpuPercent p) then cpuPercent st else maxCpuPercent p)
   \<and> (systemDelta st = Fin 0 \<longrightarrow>
        cpuPercent st =
          (if (js_gt (cpuDelta st) (Fin 0) \<and> js_gt (num_of (online_cpus st)) (Fin 0))
              \<or> (js_gt (Fin 0) (cpuDelta st) \<and> js_gt (Fin 0) (num_of (online_cpus st)))
           then PInf
           else if (js_gt (cpuDelta st) (Fin 0) \<and> js_gt (Fin 0) (num_of (online_cpus st)))
              \<or> (js_gt (Fin 0) (cpuDelta st) \<and> js_gt (num_of (online_cpus st)) (Fin 0))
           then NInf
           else NaN))"
proof (intro conjI impI)
  show "maxCpuPercent (stats_on_data (Some st) p) =
     (if js_gt (cpuPercent st) (maxCpuPercent p) then cpuPercent st else maxCpuPercent p)"
    by (simp add: stats_on_data_def Let_def split: option.splits)
next
  assume z: "systemDelta st = Fin 0"
  show "cpuPercent st =
          (if (js_gt (cpuDelta st) (Fin 0) \<and> js_gt (num_of (online_cpus st)) (Fin 0))
              \<or> (js_gt (Fin 0) (cpuDelta st) \<and> js_gt (Fin 0) (num_of (online_cpus st)))
           then PInf
           else if (js_gt (cpuDelta st) (Fin 0) \<and> js_gt (Fin 0) (num_of (online_cpus st)))
              \<or> (js_gt (Fin 0) (cpuDelta st) \<and> js_gt (num_of (online_cpus st)) (Fin 0))
           then NInf
           else NaN)"
    unfolding cpuPercent_def z js_div_zero
    by (cases "cpuDelta st"; cases "num_of (online_cpus st)") auto
qed

theorem cpu_sample_not_skipped_witness:
  "systemDelta example_stats = Fin 0
   \<and> maxCpuPercent (stats_on_data (Some example_stats) \<lparr>maxCpuPercent = Fin 0, maxMemoryMb = Fin 0\<rparr>)
       = PInf"
  using cpu_sample_not_skipped [of example_stats "\<lparr>maxCpuPercent = Fin 0, maxMemoryMb = Fin 0\<rparr>"]
  by (simp add: example_stats_values)

text \<open>A frame with a zero system delta and a positive CPU delta moves the peak (to
  \<open>Infinity\<close>).\<close>

theorem zero_delta_counterexample:
  "maxCpuPercent (stats_on_data (Some example_stats) \<lparr>maxCpuPercent = Fin 0, maxMemoryMb = Fin 0\<rparr>)
   \<noteq> maxCpuPercent \<lparr>maxCpuPercent = Fin 0, maxMemoryMb = Fin 0\<rparr>"
  by (simp add: stats_on_data_def cpuPercent_def example_stats_values Let_def
        split: option.splits)

text \<open>A frame whose system counter went backwards is sampled like any other: here both
  deltas are -1000 and the peak goes from 0 to 200.\<close>

lemma negative_delta_raises_peak:
  "js_gt (Fin 0) (systemDelta backwards_stats)
   \<and> maxCpuPercent (stats_on_data (Some backwards_stats) \<lparr>maxCpuPercent = Fin 0, maxMemoryMb = Fin 0\<rparr>)
       = Fin 200"
  by (simp add: stats_on_data_def cpuPercent_def systemDelta_def cpuDelta_def
        backwards_stats_def num_of_def round64_def Let_def)

text \<open>Counters above \<open>2 ^ 53\<close> are rounded when the frame is parsed: the system
  counters \<open>2 ^ 53 + 1\<close> and \<open>2 ^ 53\<close> are the same double, the delta is zero and the
  peak becomes \<open>Infinity\<close>.\<close>

lemma large_counter_rounded: "num_of (Some 9007199254740993) = Fin 9007199254740992"
  by (simp add: num_of_def) code_simp

lemma large_counters_zero_delta:
  "systemDelta large_stats = Fin 0
   \<and> maxCpuPercent (stats_on_data (Some large_stats) \<lparr>maxCpuPercent = Fin 0, maxMemoryMb = Fin 0\<rparr>)
       = PInf"
proof -
  have z: "systemDelta large_stats = Fin 0"
    by (simp add: systemDelta_def large_stats_def large_counter_rounded)
       (simp add: num_of_def round64_def)
  have c: "cpuDelta large_stats = Fin 100" "num_of (online_cpus large_stats) = Fin 2"
    by (simp_all add: cpuDelta_def large_stats_def num_of_def round64_def)
  show ?thesis
    by (simp add: z stats_on_data_def cpuPercent_def c Let_def split: option.splits)
qed

text \<open>A frame that does not parse leaves both peaks as they are.\<close>

lemma stats_parse_error_skipped: "stats_on_data None p = p"
  by (simp add: stats_on_data_def)

text \<open>
  C3. The handler takes every data event for exactly one frame: the first byte is the tag
  and everything after the eighth byte is payload; the length field is never read. When
  one event carries a stdout frame followed by a stderr frame, the header and payload of
  the second frame are appended to \<open>stdout\<close> and \<open>stderr\<close> stays empty, where the claim
  asks for \<open>stdout = "a"\<close> and \<open>stderr = "b"\<close>.
\<close>

theorem demux_coalesced_frames:
  "demux [frame 1 [0x61] @ frame 2 [0x62]] = ([0x61, 2, 0, 0, 0, 0, 0, 0, 1, 0x62], [])"
  by (simp add: demux_def stream_on_data_def frame_def be32_def toString_def utf8_first_def
        utf16_units_def)

text \<open>A frame that arrives in two events is lost; frames that arrive one per event are
  decoded and appended to their buffer, and a frame with another tag is dropped.\<close>

lemma stream_on_data_whole_frame:
  "stream_on_data (frame tag payload) (out, err) =
     (if tag = 1 then (out @ toString payload, err)
      else if tag = 2 then (out, err @ toString payload)
      else (out, err))"
  by (simp add: stream_on_data_def frame_def be32_def)

lemma demux_split_frame:
  "demux [take 3 (frame 1 [0x61]), drop 3 (frame 1 [0x61])] = ([], [])"
  by (simp add: demux_def stream_on_data_def frame_def be32_def toString_def utf8_first_def
        utf16_units_def)

lemma demux_aligned_frames:
  "demux [frame 1 [0x61], frame 2 [0x62]] = ([0x61], [0x62])"
  by (simp add: demux_def stream_on_data_def frame_def be32_def toString_def utf8_first_def
        utf16_units_def)

lemma utf8_run_accents:
  "utf8_run 0 0 0x80 0xBF (map unat (concat (replicate n [0xC3, 0xA9 :: byte]))) = replicate n 233"
  by (induction n) (simp_all add: utf8_first_def)

lemma toString_accents:
  "toString (concat (replicate n [0xC3, 0xA9])) = replicate n 0xE9"
  by (simp add: toString_def utf8_run_accents utf16_units_def map_replicate_const
        del: replicate.simps)

lemma utf8_length_accent_Cons: "utf8_length (0xE9 # us) = 2 + utf8_length us"
  by (cases us) (simp_all add: unit_bytes_def)

lemma utf8_length_accents: "utf8_length (replicate n 0xE9) = 2 * n"
  by (induction n) (simp_all add: utf8_length_accent_Cons)

lemma text_column_accent_Cons: "text_column (0xE9 # us) = 0xE9 # text_column us"
  by (cases us) (simp_all add: text_unit_def)

lemma text_column_accents: "text_column (replicate n 0xE9) = replicate n 0xE9"
  by (induction n) (simp_all add: text_column_accent_Cons)

lemma length_text_column: "length (text_column us) = length us"
  by (induction us rule: text_column.induct) simp_all

lemma accents_env_resolves: "resolves accents_env"
  by (simp add: accents_env_def resolves_update example_env_resolves)

lemma accents_stdout:
  "take 10000 (fst (demux (chunks accents_env))) = replicate 10000 0xE9"
  by (simp add: accents_env_def demux_def stream_on_data_def toString_accents
        del: replicate.simps)

text \<open>
  C4 (as the code has it). On the success path the stored \<open>stdout\<close> and \<open>stderr\<close> are
  \<open>substring(0, 10000)\<close> of the collected strings as the TEXT column holds them: the
  first 10000 UTF-16 code units of the decoded output, a surrogate that the cut left
  without its partner being stored as U+FFFD, so at most 10000 code units each. The
  bound counts code units, not bytes.
\<close>

theorem output_truncated_to_code_units:
  assumes "fst (executeJavaInDocker env jid db now) = Succeeded"
  shows "\<exists>j out err. store (snd (executeJavaInDocker env jid db now)) jid = Some j
     \<and> stdout j = Some out \<and> stderr j = Some err
     \<and> out = text_column (take 10000 (fst (demux (chunks env))))
     \<and> err = text_column (take 10000 (snd (demux (chunks env))))
     \<and> length out \<le> 10000 \<and> length err \<le> 10000"
proof -
  from succeededD [OF assms] obtain j0 where j0: "db jid = Some j0" and r: "resolves env"
    by auto
  show ?thesis
    by (simp add: success_store [where db = db and jid = jid, OF j0 r] length_text_column)
qed

theorem output_truncated_to_code_units_witness:
  "fst (executeJavaInDocker example_env ''job-1'' example_db 0) = Succeeded
   \<and> (\<exists>j out err. store (snd (executeJavaInDocker example_env ''job-1'' example_db 0)) ''job-1'' = Some j
     \<and> stdout j = Some out \<and> stderr j = Some err
     \<and> out = text_column (take 10000 (fst (demux (chunks example_env))))
     \<and> err = text_column (take 10000 (snd (demux (chunks example_env))))
     \<and> length out \<le> 10000 \<and> length err \<le> 10000)"
proof -
  have a: "fst (executeJavaInDocker example_env ''job-1'' example_db 0) = Succeeded"
    by (rule success_outcome [where db = example_db and jid = "''job-1''", OF example_db_job
          example_env_resolves])
  from a output_truncated_to_code_units [OF a] show ?thesis by blast
qed

text \<open>A program that prints U+00E9 ten thousand times has all of it stored: 10000 code
  units, which are 20000 bytes.\<close>

theorem stdout_bytes_counterexample:
  "\<not> stored_stdout_bytes ''job-1''
       (store (snd (executeJavaInDocker accents_env ''job-1'' example_db 0))) \<le> 10000"
proof -
  note s = success_store [where db = example_db and jid = "''job-1''" and now = 0,
      OF example_db_job accents_env_resolves]
  show ?thesis
    by (simp add: stored_stdout_bytes_def s accents_stdout text_column_accents
          utf8_length_accents del: replicate.simps)
qed

text \<open>When the cut falls inside a surrogate pair, the row ends in U+FFFD: 9999 times
  \<open>a\<close> followed by U+1F600.\<close>

lemma text_column_a_Cons: "text_column (0x61 # us) = 0x61 # text_column us"
  by (cases us) (simp_all add: text_unit_def)

lemma cut_surrogate_pair:
  "text_column (take 10000 (replicate 9999 0x61 @ [0xD83D, 0xDE00])) =
     replicate 9999 0x61 @ [0xFFFD]"
proof -
  have "text_column (replicate n 0x61 @ [0xD83D]) = replicate n 0x61 @ [0xFFFD]" for n
    by (induction n) (simp_all add: text_column_a_Cons text_unit_def)
  then show ?thesis
    by (simp del: replicate.simps)
qed

text \<open>The catch block stores the whole error text, however long, and does not touch
  \<open>stdout\<close>.\<close>

lemma failure_stderr_not_truncated:
  "finalize_failure jid msg now db jid = (case db jid of None \<Rightarrow> None | Some j \<Rightarrow>
     Some (j\<lparr>status := Done, crashed := True, stderr := Some (text_column msg),
             completed_at := Some now\<rparr>))"
  by (simp add: finalize_failure_def update_job_def split: option.splits)

subsection \<open>Every path: the order of the observer calls\<close>

lemma stage_observers:
  "stage env jid s = Inl (m, s') \<Longrightarrow> observers s' = observers s"
  "stage env jid s = Inr s' \<Longrightarrow> observers s' = observers s"
  by (auto simp: stage_def seq_iffs observers_def observer_def split: option.splits)

lemma run_sandbox_observers_Inr:
  "run_sandbox env s = Inr s' \<Longrightarrow> observers s' = observers s @ [Attach, Start, Stats]"
  by (auto simp: run_sandbox_def seq_iffs observers_def observer_def issue_def Let_def
        split: option.splits)

lemma run_sandbox_observers_Inl:
  "run_sandbox env s = Inl (m, s') \<Longrightarrow>
   observers s' = observers s @ [Attach] \<or> observers s' = observers s @ [Attach, Start]
   \<or> observers s' = observers s @ [Attach, Start, Stats]"
  by (auto simp: run_sandbox_def seq_iffs observers_def observer_def issue_def Let_def
        split: option.splits if_splits)

lemma finish_observers:
  "finish env jid t s = Inl (m, s') \<Longrightarrow> observers s' = observers s"
  "finish env jid t s = Inr s' \<Longrightarrow> observers s' = observers s"
  by (auto simp: finish_def seq_iffs observers_def observer_def issue_def attempt_eq Let_def)

lemma on_error_observers: "observers (snd (on_error env jid m s)) = observers s"
  by (auto simp: on_error_def db_run_def andThen_def perform_def attempt_eq observers_def
        observer_def issue_def Let_def split: option.splits sum.splits)

lemma initial_observers: "observers (initial db now) = []"
  by (simp add: observers_def initial_def)

text \<open>
  C9 (as the code has it). In every run the output stream is attached first, the sandbox
  is started second and the statistics stream is opened third: whatever the outcome, the
  observer calls issued are an initial part of attach, start, stats.
\<close>

theorem attach_start_stats_order:
  "prefix (observers (snd (executeJavaInDocker env jid db now))) [Attach, Start, Stats]"
proof -
  let ?s = "snd (executeJavaInDocker env jid db now)"
  have "observers ?s = [] \<or> observers ?s = [Attach] \<or> observers ?s = [Attach, Start]
      \<or> observers ?s = [Attach, Start, Stats]"
    using run_cases [of env jid db now]
  proof (elim disjE exE conjE)
    fix m s1
    assume "stage env jid (initial db now) = Inl (m, s1)"
      and "executeJavaInDocker env jid db now = on_error env jid m s1"
    then show ?thesis
      by (simp add: on_error_observers stage_observers initial_observers)
  next
    fix s1 m s2
    assume "stage env jid (initial db now) = Inr s1" and "run_sandbox env s1 = Inl (m, s2)"
      and "executeJavaInDocker env jid db now = on_error env jid m s2"
    then show ?thesis
      using run_sandbox_observers_Inl [of env s1 m s2]
      by (simp add: on_error_observers stage_observers initial_observers)
  next
    fix s1 s2 m s3
    assume "stage env jid (initial db now) = Inr s1" and "run_sandbox env s1 = Inr s2"
      and "finish env jid now s2 = Inl (m, s3)"
      and "executeJavaInDocker env jid db now = on_error env jid m s3"
    then show ?thesis
      by (simp add: on_error_observers stage_observers initial_observers finish_observers
            run_sandbox_observers_Inr)
  next
    fix s1 s2 s3
    assume "stage env jid (initial db now) = Inr s1" and "run_sandbox env s1 = Inr s2"
      and "finish env jid now s2 = Inr s3"
      and "executeJavaInDocker env jid db now = (Succeeded, s3)"
    then show ?thesis
      by (simp add: stage_observers initial_observers finish_observers
            run_sandbox_observers_Inr)
  qed
  then show ?thesis by auto
qed

lemma example_env_no_deadline: "deadline_fired example_env = False"
  by (simp add: deadline_fired_def CONTAINER_TIMEOUT_MS_def example_env_def)

text \<open>In the example run the statistics stream is opened after the sandbox was started,
  not before.\<close>

theorem stats_after_start_counterexample:
  "observers (snd (executeJavaInDocker example_env ''job-1'' example_db 0))
   \<noteq> [Attach, Stats, Start]"
proof -
  note t = success_trace [where db = example_db and jid = "''job-1''" and now = 0,
      OF example_db_job example_env_resolves]
  have "observers (snd (executeJavaInDocker example_env ''job-1'' example_db 0))
      = [Attach, Start, Stats]"
    by (simp add: observers_def t observer_def example_env_no_deadline)
  then show ?thesis by simp
qed

subsection \<open>Every path: what the run writes to the job\<close>

lemma stage_telemetry:
  assumes "store s jid = Some j"
  shows "stage env jid s = Inl (m, s') \<Longrightarrow>
           \<exists>j'. store s' jid = Some j' \<and> telemetry j' = telemetry j"
    and "stage env jid s = Inr s' \<Longrightarrow>
           \<exists>j'. store s' jid = Some j' \<and> telemetry j' = telemetry j"
  using assms
  by (auto simp: stage_def seq_iffs store_defs telemetry_def split: option.splits)

lemma run_sandbox_store:
  "run_sandbox env s = Inl (m, s') \<Longrightarrow> store s' = store s"
  "run_sandbox env s = Inr s' \<Longrightarrow> store s' = store s"
  by (auto simp: run_sandbox_def seq_iffs issue_def Let_def split: option.splits if_splits)

lemma finish_store_Inl: "finish env jid t s = Inl (m, s') \<Longrightarrow> store s' = store s"
  by (auto simp: finish_def seq_iffs issue_def Let_def)

lemma on_error_Failed:
  assumes "fst (on_error env jid m s) = Failed msg"
  shows "msg = m \<and> (\<exists>t. store (snd (on_error env jid m s)) = finalize_failure jid m t (store s))"
  using assms
  by (auto simp: on_error_def db_run_def andThen_def perform_def attempt_eq issue_def Let_def
        split: option.splits sum.splits)

lemma finalize_failure_keeps:
  assumes "db jid = Some j"
  shows "\<exists>j'. finalize_failure jid m t db jid = Some j' \<and> status j' = Done \<and> crashed j'
     \<and> stderr j' = Some (text_column m) \<and> completed_at j' = Some t
     \<and> telemetry j' = telemetry j"
  using assms by (simp add: finalize_failure_def update_job_def telemetry_def)

text \<open>
  C10. A run that ends in the catch block on an existing job leaves the row with status
  \<open>done\<close>, \<open>crashed\<close> set, the error text (as the TEXT column holds it) in \<open>stderr\<close> and a
  completion time; \<open>stdout\<close>,
  \<open>timed_out\<close>, \<open>memory_usage_mb\<close>, \<open>cpu_percent_max\<close> and \<open>execution_time_ms\<close> are what
  they were before the run (their defaults for a job that was just submitted).
\<close>

theorem failure_path_frame:
  assumes "db jid = Some j" and "fst (executeJavaInDocker env jid db now) = Failed msg"
  shows "\<exists>j'. store (snd (executeJavaInDocker env jid db now)) jid = Some j'
     \<and> status j' = Done \<and> crashed j' \<and> stderr j' = Some (text_column msg)
     \<and> completed_at j' \<noteq> None
     \<and> stdout j' = stdout j \<and> timed_out j' = timed_out j
     \<and> memory_usage_mb j' = memory_usage_mb j \<and> cpu_percent_max j' = cpu_percent_max j
     \<and> execution_time_ms j' = execution_time_ms j"
proof -
  have init: "store (initial db now) jid = Some j"
    using assms(1) by (simp add: initial_def)
  have "\<exists>m s. executeJavaInDocker env jid db now = on_error env jid m s
      \<and> (\<exists>j1. store s jid = Some j1 \<and> telemetry j1 = telemetry j)"
    using run_cases [of env jid db now]
  proof (elim disjE exE conjE)
    fix m s1
    assume "stage env jid (initial db now) = Inl (m, s1)"
      and "executeJavaInDocker env jid db now = on_error env jid m s1"
    then show ?thesis
      using stage_telemetry(1) [OF init] by blast
  next
    fix s1 m s2
    assume "stage env jid (initial db now) = Inr s1" and "run_sandbox env s1 = Inl (m, s2)"
      and "executeJavaInDocker env jid db now = on_error env jid m s2"
    then show ?thesis
      using stage_telemetry(2) [OF init] run_sandbox_store(1) by metis
  next
    fix s1 s2 m s3
    assume "stage env jid (initial db now) = Inr s1" and "run_sandbox env s1 = Inr s2"
      and "finish env jid now s2 = Inl (m, s3)"
      and "executeJavaInDocker env jid db now = on_error env jid m s3"
    then show ?thesis
      using stage_telemetry(2) [OF init] run_sandbox_store(2) finish_store_Inl by metis
  next
    fix s1 s2 s3
    assume "executeJavaInDocker env jid db now = (Succeeded, s3)"
    with assms(2) show ?thesis by simp
  qed
  then obtain m s j1 where run: "executeJavaInDocker env jid db now = on_error env jid m s"
    and j1: "store s jid = Some j1" and tel: "telemetry j1 = telemetry j"
    by blast
  from assms(2) run have "fst (on_error env jid m s) = Failed msg" by simp
  from on_error_Failed [OF this] obtain t where msg: "msg = m"
    and fin: "store (snd (on_error env jid m s)) = finalize_failure jid m t (store s)"
    by blast
  from finalize_failure_keeps [where db = "store s" and jid = jid, OF j1, of m t] tel
  show ?thesis
    by (auto simp: run fin msg telemetry_def)
qed

text \<open>A run whose \<open>createContainer\<close> rejects ends in the catch block.\<close>

lemma create_container_fails:
  assumes "db jid = Some j" and "fails env DbGet = None" and "fails env DbMarkRunning = None"
    and "fails env CreateTar = None" and "fails env CreateContainer = Some m"
    and "fails env DbFinalizeError = None"
  shows "fst (executeJavaInDocker env jid db now) = Failed m"
proof -
  have init: "store (initial db now) jid = Some j"
    using assms(1) by (simp add: initial_def)
  obtain s1 where "stage env jid (initial db now) = Inl (m, s1)"
    using init assms(2-5)
    by (simp add: stage_def andThen_def perform_ok db_run_ok perform_def issue_def Let_def)
  then have "executeJavaInDocker env jid db now = on_error env jid m s1"
    by (simp add: executeJavaInDocker_def andThen_def Let_def)
  then show ?thesis
    using assms(6) by (simp add: on_error_def db_run_ok Let_def)
qed

theorem failure_path_frame_witness:
  "example_db ''job-1'' = Some \<lparr>job_id = ''job-1'', api_key = ''test-api-key-123'', status = Not_started,
           java_code = ''class Main {}'', args = [],
           input_files = [\<lparr>name = ''../etc/passwd'', content = ''x''\<rparr>],
           stdout = None, stderr = None, crashed = False, timed_out = False,
           memory_usage_mb = None, cpu_percent_max = None, execution_time_ms = None,
           created_at = 0, started_at = None, completed_at = None, container_id = None\<rparr>
   \<and> fst (executeJavaInDocker
            (example_env\<lparr>fails := (\<lambda>c. if c = CreateContainer then Some (js ''no such image'') else None)\<rparr>)
            ''job-1'' example_db 0) = Failed (js ''no such image'')
   \<and> (\<exists>j'. store (snd (executeJavaInDocker
            (example_env\<lparr>fails := (\<lambda>c. if c = CreateContainer then Some (js ''no such image'') else None)\<rparr>)
            ''job-1'' example_db 0)) ''job-1'' = Some j'
     \<and> status j' = Done \<and> crashed j' \<and> stderr j' = Some (js ''no such image'')
     \<and> completed_at j' \<noteq> None
     \<and> stdout j' = None \<and> timed_out j' = False
     \<and> memory_usage_mb j' = None \<and> cpu_percent_max j' = None
     \<and> execution_time_ms j' = None)"
proof -
  let ?env = "example_env\<lparr>fails := (\<lambda>c. if c = CreateContainer then Some (js ''no such image'') else None)\<rparr>"
  have a: "fst (executeJavaInDocker ?env ''job-1'' example_db 0) = Failed (js ''no such image'')"
    by (rule create_container_fails [where db = example_db and jid = "''job-1''",
          OF example_db_job]) simp_all
  have tc: "text_column (js ''no such image'') = js ''no such image''"
    by (simp add: js_def text_unit_def)
  from failure_path_frame [where db = example_db and jid = "''job-1''", OF example_db_job a]
    a example_db_job
  show ?thesis by (simp add: tc)
qed

subsection \<open>Every path: the statuses a run writes\<close>

lemma status_history_append:
  "history s' = history s @ ds \<Longrightarrow>
   status_history jid s' =
     status_history jid s @ concat (map (\<lambda>db. case db jid of None \<Rightarrow> [] | Some j \<Rightarrow> [status j]) ds)"
  by (simp add: status_history_def)

lemma stage_statuses:
  assumes "store s jid = Some j" and "fails env DbGet = None" and "fails env DbMarkRunning = None"
  shows "stage env jid s = Inl (m, s') \<Longrightarrow>
           store s' jid \<noteq> None \<and>
           (status_history jid s' = status_history jid s @ [Running]
            \<or> status_history jid s' = status_history jid s @ [Running, Running])"
    and "stage env jid s = Inr s' \<Longrightarrow>
           store s' jid \<noteq> None \<and>
           status_history jid s' = status_history jid s @ [Running, Running]"
  using assms
  by (auto simp: stage_def seq_iffs store_defs status_history_def split: option.splits)

lemma run_sandbox_history:
  "run_sandbox env s = Inl (m, s') \<Longrightarrow> history s' = history s"
  "run_sandbox env s = Inr s' \<Longrightarrow> history s' = history s"
  by (auto simp: run_sandbox_def seq_iffs issue_def Let_def split: option.splits if_splits)

lemma run_sandbox_statuses:
  "run_sandbox env s = Inl (m, s') \<Longrightarrow> status_history jid s' = status_history jid s"
  "run_sandbox env s = Inr s' \<Longrightarrow> status_history jid s' = status_history jid s"
  by (simp_all add: status_history_def run_sandbox_history)

lemma finish_statuses_Inl:
  "finish env jid t s = Inl (m, s') \<Longrightarrow>
   store s' = store s \<and> status_history jid s' = status_history jid s"
  by (auto simp: finish_def seq_iffs issue_def Let_def status_history_def)

lemma finish_statuses_Inr:
  assumes "store s jid \<noteq> None"
  shows "finish env jid t s = Inr s' \<Longrightarrow> status_history jid s' = status_history jid s @ [Done]"
  using assms
  by (auto simp: finish_def seq_iffs issue_def attempt_eq Let_def status_history_def store_defs)

lemma on_error_statuses:
  assumes "store s jid \<noteq> None"
  shows "status_history jid (snd (on_error env jid m s)) = status_history jid s
     \<or> status_history jid (snd (on_error env jid m s)) = status_history jid s @ [Done]"
  using assms
  by (auto simp: on_error_def db_run_def andThen_def perform_def attempt_eq issue_def Let_def
        status_history_def store_defs split: option.splits sum.splits)

lemma initial_statuses: "status_history jid (initial db now) = []"
  by (simp add: status_history_def initial_def)

lemma stage_refused_early:
  assumes "store s jid = Some j"
    and "\<not> (fails env DbGet = None \<and> fails env DbMarkRunning = None)"
  shows "\<exists>m s'. stage env jid s = Inl (m, s') \<and> store s' = store s \<and> history s' = history s"
  using assms
  by (auto simp: stage_def andThen_def db_run_def perform_def issue_def Let_def
        split: option.splits)

text \<open>
  C8 (as the code has it). The Supervisor tests only that the row exists; it does not
  test the status. For an existing job of any status: when the SELECT and the UPDATE that
  marks it running resolve, the first status the run writes is \<open>running\<close> and the
  statuses it writes after that never go back (\<open>running\<close>, then \<open>done\<close>); when either
  of the two rejects, the run writes no status or writes \<open>done\<close> alone, from the catch
  block.
\<close>

theorem marks_running_then_done:
  assumes "db jid = Some j"
  shows "(if fails env DbGet = None \<and> fails env DbMarkRunning = None
          then \<exists>rest. status_history jid (snd (executeJavaInDocker env jid db now)) = Running # rest
                 \<and> sorted (map status_rank (Running # rest))
          else status_history jid (snd (executeJavaInDocker env jid db now)) = []
             \<or> status_history jid (snd (executeJavaInDocker env jid db now)) = [Done])"
proof (cases "fails env DbGet = None \<and> fails env DbMarkRunning = None")
  case False
  let ?h = "status_history jid (snd (executeJavaInDocker env jid db now))"
  have init: "store (initial db now) jid = Some j"
    using assms(1) by (simp add: initial_def)
  from stage_refused_early [OF init False] obtain m s1
    where a: "stage env jid (initial db now) = Inl (m, s1)"
      and b: "store s1 = store (initial db now)" and c: "history s1 = history (initial db now)"
    by blast
  have run: "executeJavaInDocker env jid db now = on_error env jid m s1"
    using a by (simp add: executeJavaInDocker_def andThen_def Let_def)
  have "status_history jid s1 = []"
    by (simp add: status_history_def c initial_def)
  moreover have "store s1 jid \<noteq> None"
    using b init by simp
  ultimately have "?h = [] \<or> ?h = [Done]"
    using on_error_statuses [of s1 jid env m] by (simp add: run)
  then show ?thesis
    unfolding if_not_P [OF False] .
next
  case True
  let ?h = "status_history jid (snd (executeJavaInDocker env jid db now))"
  have init: "store (initial db now) jid = Some j"
    using assms(1) by (simp add: initial_def)
  from True have g: "fails env DbGet = None" and mr: "fails env DbMarkRunning = None"
    by simp_all
  note st = stage_statuses [OF init g mr]
  have "?h = [Running] \<or> ?h = [Running, Running] \<or> ?h = [Running, Done]
      \<or> ?h = [Running, Running, Done]"
    using run_cases [of env jid db now]
  proof (elim disjE exE conjE)
    fix m s1
    assume a: "stage env jid (initial db now) = Inl (m, s1)"
      and "executeJavaInDocker env jid db now = on_error env jid m s1"
    then show ?thesis
      using st(1) [OF a] on_error_statuses [of s1 jid env m]
      by (auto simp: initial_statuses)
  next
    fix s1 m s2
    assume a: "stage env jid (initial db now) = Inr s1" and b: "run_sandbox env s1 = Inl (m, s2)"
      and "executeJavaInDocker env jid db now = on_error env jid m s2"
    then show ?thesis
      using st(2) [OF a] on_error_statuses [of s2 jid env m]
        run_sandbox_statuses(1) [where jid = jid, OF b] run_sandbox_store(1) [OF b]
      by (auto simp: initial_statuses)
  next
    fix s1 s2 m s3
    assume a: "stage env jid (initial db now) = Inr s1" and b: "run_sandbox env s1 = Inr s2"
      and c: "finish env jid now s2 = Inl (m, s3)"
      and "executeJavaInDocker env jid db now = on_error env jid m s3"
    then show ?thesis
      using st(2) [OF a] on_error_statuses [of s3 jid env m]
        run_sandbox_statuses(2) [where jid = jid, OF b] run_sandbox_store(2) [OF b]
        finish_statuses_Inl [where jid = jid, OF c]
      by (auto simp: initial_statuses)
  next
    fix s1 s2 s3
    assume a: "stage env jid (initial db now) = Inr s1" and b: "run_sandbox env s1 = Inr s2"
      and c: "finish env jid now s2 = Inr s3"
      and "executeJavaInDocker env jid db now = (Succeeded, s3)"
    then show ?thesis
      using st(2) [OF a] run_sandbox_statuses(2) [where jid = jid, OF b]
        run_sandbox_store(2) [OF b] finish_statuses_Inr [OF _ c]
      by (auto simp: initial_statuses)
  qed
  then have "\<exists>rest. ?h = Running # rest \<and> sorted (map status_rank (Running # rest))"
    by auto
  then show ?thesis
    unfolding if_P [OF True] .
qed

lemma done_db_job: "\<exists>j. done_db ''job-1'' = Some j \<and> status j = Done"
  by (simp add: done_db_def finalize_failure_def update_job_def example_db_job)

theorem marks_running_then_done_witness:
  "(\<exists>j. done_db ''job-1'' = Some j \<and> status j = Done)
   \<and> (\<exists>rest. status_history ''job-1'' (snd (executeJavaInDocker example_env ''job-1'' done_db 0))
         = Running # rest \<and> sorted (map status_rank (Running # rest)))"
proof -
  from done_db_job obtain j where j: "done_db ''job-1'' = Some j" and "status j = Done"
    by blast
  have a: "fails example_env DbGet = None \<and> fails example_env DbMarkRunning = None"
    by (simp add: example_env_def)
  from marks_running_then_done [where db = done_db and jid = "''job-1''" and env = example_env
      and now = 0, OF j] a
  have "\<exists>rest. status_history ''job-1'' (snd (executeJavaInDocker example_env ''job-1'' done_db 0))
         = Running # rest \<and> sorted (map status_rank (Running # rest))"
    by simp
  with done_db_job show ?thesis by blast
qed

text \<open>A job that is already \<open>done\<close> is not refused: the run goes through and writes
  \<open>running\<close> over \<open>done\<close>.\<close>

theorem done_job_rerun_counterexample:
  "map_option status (done_db ''job-1'') = Some Done
   \<and> fst (executeJavaInDocker example_env ''job-1'' done_db 0) = Succeeded
   \<and> status_history ''job-1'' (snd (executeJavaInDocker example_env ''job-1'' done_db 0))
       = [Running, Running, Done]"
proof -
  from done_db_job obtain j where j: "done_db ''job-1'' = Some j" and d: "status j = Done"
    by blast
  show ?thesis
    by (simp add: j d success_outcome [where db = done_db and jid = "''job-1''", OF j example_env_resolves]
          success_status_history [where db = done_db and jid = "''job-1''", OF j example_env_resolves])
qed

text \<open>The one refusal: a run on an id without a row never succeeds.\<close>

lemma refuses_missing_job:
  assumes "db jid = None"
  shows "fst (executeJavaInDocker env jid db now) \<noteq> Succeeded"
  using succeededD [of env jid db now] assms by auto

end
